theory Spec2Isabelle
  imports Complex_Main "HOL-Library.Word" "HOL-Library.Multiset"
begin

section \<open>JavaScript strings and JSON values\<close>

text \<open>
  A JavaScript string is a sequence of UTF-16 code units; \<open>length\<close>, \<open>slice\<close> and the
  regular expressions of \<open>app.tsx\<close> all count code units. \<open>js\<close> embeds an ASCII literal.
\<close>

type_synonym jschar = "16 word"
type_synonym jsstring = "jschar list"

definition js :: "string \<Rightarrow> jsstring" where
  "js s = map of_char s"

text \<open>\<open>type Language = 'en' | 'tr'\<close>\<close>

datatype Language = En | Tr

text \<open>
  The value \<open>response.json()\<close> resolves to. Numbers are kept abstract (\<open>'n\<close>); an object is
  the list of its members in the order of the text, where \<open>JSON.parse\<close> lets the last
  duplicate of a key win.
\<close>

datatype 'n json =
    JNull
  | JBool bool
  | JNum 'n
  | JStr jsstring
  | JArr "'n json list"
  | JObj "(jsstring \<times> 'n json) list"

text \<open>
  What a \<open>try\<close> block can raise: an \<open>Error\<close> with its message (thrown by the code, or the
  rejection of \<open>fetch\<close> or of \<open>response.json()\<close>), a \<open>TypeError\<close> of the engine, or the
  \<open>URIError\<close> of \<open>encodeURIComponent\<close>.
\<close>

datatype js_error = Error_msg jsstring | TypeError | URIError

text \<open>
  The outcome of \<open>fetch\<close> followed by \<open>response.json()\<close>: \<open>fetch\<close> rejects
  (network failure, with the message); or the response has \<open>ok = false\<close>, with its
  status, status text and body; or it has \<open>ok = true\<close>, with its body. A body is
  \<open>Inl m\<close> when \<open>response.json()\<close> rejects with message \<open>m\<close>, else the parsed value.
\<close>

datatype ('e, 'b) fetch_outcome =
    FetchRejected jsstring
  | HttpError nat jsstring "jsstring + 'e"
  | HttpOk "jsstring + 'b"

text \<open>\<open>x[0]\<close>: \<open>None\<close> is \<open>undefined\<close>; reading a property of \<open>null\<close> raises.\<close>

fun index0 :: "'n json \<Rightarrow> js_error + 'n json option" where
  "index0 JNull = Inl TypeError"
| "index0 (JBool b) = Inr None"
| "index0 (JNum n) = Inr None"
| "index0 (JStr s) = Inr (case s of [] \<Rightarrow> None | c # cs \<Rightarrow> Some (JStr [c]))"
| "index0 (JArr xs) = Inr (case xs of [] \<Rightarrow> None | x # ys \<Rightarrow> Some x)"
| "index0 (JObj kvs) = Inr (map_of (rev kvs) (js ''0''))"

text \<open>\<open>Array.prototype.join\<close> on the strings of the elements.\<close>

fun js_join :: "jsstring \<Rightarrow> jsstring list \<Rightarrow> jsstring" where
  "js_join sep [] = []"
| "js_join sep [x] = x"
| "js_join sep (x # y # ys) = x @ sep @ js_join sep (y # ys)"

text \<open>
  \<open>String(v)\<close> for a parsed value; \<open>numstr\<close> is the engine's number-to-string
  conversion. An array prints as the join of its elements with a comma, \<open>null\<close>
  elements as the empty string.
\<close>

fun toString :: "('n \<Rightarrow> jsstring) \<Rightarrow> 'n json \<Rightarrow> jsstring" where
  "toString numstr JNull = js ''null''"
| "toString numstr (JBool b) = (if b then js ''true'' else js ''false'')"
| "toString numstr (JNum n) = numstr n"
| "toString numstr (JStr s) = s"
| "toString numstr (JArr xs) =
     js_join (js '','') (map (\<lambda>x. if x = JNull then [] else toString numstr x) xs)"
| "toString numstr (JObj kvs) = js ''[object Object]''"

text \<open>The element strings \<open>join\<close> sees: \<open>undefined\<close> and \<open>null\<close> give the empty string.\<close>

definition join_element :: "('n \<Rightarrow> jsstring) \<Rightarrow> 'n json option \<Rightarrow> jsstring" where
  "join_element numstr v =
     (case v of None \<Rightarrow> [] | Some x \<Rightarrow> if x = JNull then [] else toString numstr x)"

section \<open>translateText\<close>

text \<open>
  \<open>encodeURIComponent\<close> raises \<open>URIError\<close> on a lone surrogate: a low surrogate that
  does not follow a high one, or a high surrogate not followed by a low one.
\<close>

fun encodable :: "jsstring \<Rightarrow> bool" where
  "encodable [] = True"
| "encodable (c # cs) =
     (if 0xDC00 \<le> c \<and> c \<le> 0xDFFF then False
      else if 0xD800 \<le> c \<and> c \<le> 0xDBFF then
        (case cs of [] \<Rightarrow> False
         | d # ds \<Rightarrow> 0xDC00 \<le> d \<and> d \<le> 0xDFFF \<and> encodable ds)
      else encodable cs)"

text \<open>
  \<open>data[0].map((segment) => segment[0])\<close>: \<open>map\<close> exists on arrays only, and the callback
  raises on a \<open>null\<close> segment; the first raise ends the loop.
\<close>

fun map_segments :: "'n json list \<Rightarrow> js_error + 'n json option list" where
  "map_segments [] = Inr []"
| "map_segments (seg # segs) =
     (case index0 seg of
        Inl e \<Rightarrow> Inl e
      | Inr v \<Rightarrow> (case map_segments segs of Inl e \<Rightarrow> Inl e | Inr vs \<Rightarrow> Inr (v # vs)))"

definition extract_translation :: "('n \<Rightarrow> jsstring) \<Rightarrow> 'n json \<Rightarrow> js_error + jsstring" where
  "extract_translation numstr data =
     (case index0 data of
        Inl e \<Rightarrow> Inl e
      | Inr (Some (JArr segs)) \<Rightarrow>
          (case map_segments segs of
             Inl e \<Rightarrow> Inl e
           | Inr vs \<Rightarrow> Inr (js_join [] (map (join_element numstr) vs)))
      | Inr _ \<Rightarrow> Inl TypeError)"

text \<open>The body of the \<open>try\<close> block, from the outcome of \<open>fetch\<close> on.\<close>

definition translate_try ::
  "('n \<Rightarrow> jsstring) \<Rightarrow> ('e, 'n json) fetch_outcome \<Rightarrow> js_error + jsstring" where
  "translate_try numstr outcome =
     (case outcome of
        FetchRejected m \<Rightarrow> Inl (Error_msg m)
      | HttpError st txt b \<Rightarrow> Inl (Error_msg (js ''Translation request failed''))
      | HttpOk (Inl m) \<Rightarrow> Inl (Error_msg m)
      | HttpOk (Inr data) \<Rightarrow> extract_translation numstr data)"

text \<open>
  \<open>translateText(text, targetLang)\<close>. The network is a function from the request (target
  language and text) to the outcome of \<open>fetch\<close>; the result is the returned string and
  the list of requests issued.
\<close>

definition translateText ::
  "('n \<Rightarrow> jsstring) \<Rightarrow> (Language \<Rightarrow> jsstring \<Rightarrow> ('e, 'n json) fetch_outcome) \<Rightarrow>
     jsstring \<Rightarrow> Language \<Rightarrow> jsstring \<times> (Language \<times> jsstring) list" where
  "translateText numstr net text targetLang =
     (if text = [] \<or> targetLang = En then (text, [])
      else if \<not> encodable text then (text, [])
      else (case translate_try numstr (net targetLang text) of
              Inl e \<Rightarrow> (text, [(targetLang, text)])
            | Inr translated \<Rightarrow> (translated, [(targetLang, text)])))"

text \<open>
  A well-formed translation body: an array whose first element is an array of segments,
  each an array that starts with a string.
\<close>

definition well_formed_segment :: "'n json \<Rightarrow> bool" where
  "well_formed_segment seg =
     (case seg of JArr (JStr s # rest) \<Rightarrow> True | _ \<Rightarrow> False)"

definition well_formed_translation :: "'n json \<Rightarrow> bool" where
  "well_formed_translation data =
     (case data of JArr (JArr segs # rest) \<Rightarrow> list_all well_formed_segment segs | _ \<Rightarrow> False)"

text \<open>
  The parsed bodies on which the extraction raises: \<open>null\<close>, a body whose element 0 is
  not an array, and a body with a \<open>null\<close> segment.
\<close>

definition extraction_raises :: "'n json \<Rightarrow> bool" where
  "extraction_raises data =
     (case index0 data of
        Inl e \<Rightarrow> True
      | Inr (Some (JArr segs)) \<Rightarrow> list_ex (\<lambda>seg. seg = JNull) segs
      | Inr _ \<Rightarrow> True)"

definition call_raises :: "('e, 'n json) fetch_outcome \<Rightarrow> bool" where
  "call_raises outcome =
     (case outcome of
        FetchRejected m \<Rightarrow> True
      | HttpError st txt b \<Rightarrow> True
      | HttpOk (Inl m) \<Rightarrow> True
      | HttpOk (Inr data) \<Rightarrow> extraction_raises data)"

text \<open>A network that answers every request with the same outcome.\<close>

definition constant_net :: "('e, 'b) fetch_outcome \<Rightarrow> Language \<Rightarrow> jsstring \<Rightarrow> ('e, 'b) fetch_outcome" where
  "constant_net outcome lang text = outcome"

section \<open>stripMarkdown\<close>

text \<open>
  The two regular expressions of \<open>stripMarkdown\<close> have the shape
  \<open>(m1|m2)(.*?)\1\<close> with flag \<open>g\<close>. A marker is never empty, so it is kept as its first
  code unit and the rest. Without the flag \<open>s\<close>, the dot matches every code unit but the
  four line terminators.
\<close>

definition line_terminator :: "jschar \<Rightarrow> bool" where
  "line_terminator c = (c = 0x000A \<or> c = 0x000D \<or> c = 0x2028 \<or> c = 0x2029)"

text \<open>
  \<open>(.*?)\1\<close> at the start of \<open>s\<close>: the lazy star takes the fewest code units that
  let the closing marker follow. The result is the captured group and the text after
  the match.
\<close>

fun lazy_body :: "jsstring \<Rightarrow> jsstring \<Rightarrow> (jsstring \<times> jsstring) option" where
  "lazy_body closer [] = (if closer = [] then Some ([], []) else None)"
| "lazy_body closer (c # cs) =
     (if take (length closer) (c # cs) = closer then Some ([], drop (length closer) (c # cs))
      else if line_terminator c then None
      else (case lazy_body closer cs of
              None \<Rightarrow> None
            | Some (captured, rest) \<Rightarrow> Some (c # captured, rest)))"

text \<open>
  The whole pattern at the start of \<open>s\<close>, the alternatives of the first group tried in
  order: when the first marker opens but never closes, the engine backtracks into the
  second.
\<close>

fun match_pair :: "(jschar \<times> jsstring) list \<Rightarrow> jsstring \<Rightarrow> (jsstring \<times> jsstring) option" where
  "match_pair [] s = None"
| "match_pair ((m, ms) # alternatives) s =
     (if take (Suc (length ms)) s = m # ms then
        (case lazy_body (m # ms) (drop (Suc (length ms)) s) of
           Some r \<Rightarrow> Some r
         | None \<Rightarrow> match_pair alternatives s)
      else match_pair alternatives s)"

lemma lazy_body_rest: "lazy_body closer s = Some (captured, rest) \<Longrightarrow> length rest \<le> length s"
proof (induction s arbitrary: captured)
  case Nil
  then show ?case by (simp split: if_splits)
next
  case (Cons c cs)
  show ?case
  proof (cases "take (length closer) (c # cs) = closer")
    case True
    with Cons.prems show ?thesis by auto
  next
    case False
    with Cons.prems obtain g where "lazy_body closer cs = Some (g, rest)"
      by (auto split: if_splits option.splits)
    from Cons.IH[OF this] show ?thesis by simp
  qed
qed

lemma match_pair_rest: "match_pair alternatives s = Some (captured, rest) \<Longrightarrow> length rest < length s"
proof (induction alternatives)
  case Nil
  then show ?case by simp
next
  case (Cons a alternatives)
  obtain m ms where a: "a = (m, ms)" by (cases a)
  show ?case
  proof (cases "take (Suc (length ms)) s = m # ms
                \<and> lazy_body (m # ms) (drop (Suc (length ms)) s) = Some (captured, rest)")
    case True
    then have "length rest \<le> length (drop (Suc (length ms)) s)"
      using lazy_body_rest by blast
    moreover from True have "s \<noteq> []" by auto
    ultimately show ?thesis by (cases s) auto
  next
    case False
    with Cons.prems a have "match_pair alternatives s = Some (captured, rest)"
      by (auto split: if_splits option.splits)
    then show ?thesis by (rule Cons.IH)
  qed
qed

text \<open>
  \<open>text.replace(/(m1|m2)(.*?)\1/g, '$2')\<close>: from left to right, a match is replaced by
  its second group and the search goes on after the match; where nothing matches, the
  code unit is copied.
\<close>

function replace_pairs :: "(jschar \<times> jsstring) list \<Rightarrow> jsstring \<Rightarrow> jsstring" where
  "replace_pairs alternatives [] = []"
| "replace_pairs alternatives (c # cs) =
     (case match_pair alternatives (c # cs) of
        Some (captured, rest) \<Rightarrow> captured @ replace_pairs alternatives rest
      | None \<Rightarrow> c # replace_pairs alternatives cs)"
  by pat_completeness auto
termination
  by (relation "measure (\<lambda>(alternatives, s). length s)") (auto dest: match_pair_rest)

definition asterisk :: jschar where "asterisk = 0x002A"
definition underscore :: jschar where "underscore = 0x005F"

text \<open>The alternatives of \<open>(\*\*|__)\<close> and of \<open>(\*|_)\<close>.\<close>

definition bold_markers :: "(jschar \<times> jsstring) list" where
  "bold_markers = [(asterisk, [asterisk]), (underscore, [underscore])]"

definition italic_markers :: "(jschar \<times> jsstring) list" where
  "italic_markers = [(asterisk, []), (underscore, [])]"

definition stripMarkdown :: "jsstring \<Rightarrow> jsstring" where
  "stripMarkdown text =
     (let plainText = replace_pairs bold_markers text
      in replace_pairs italic_markers plainText)"

section \<open>The typewriter and the displayed summary\<close>

text \<open>
  The three state variables of \<open>App\<close> the typewriter works on, and what React and the
  browser keep for it: the running \<open>setInterval\<close> timers (identifier and the
  \<open>plainAiSummary\<close> their callback captured), the next timer identifier, the
  dependencies each of the two effects last ran with (\<open>None\<close> before the first render),
  and the timer the pending cleanup of the typewriter effect will clear.
\<close>

record ui =
  translatedAiSummary :: jsstring
  visibleCharacters :: nat
  displayedAiSummary :: jsstring
  intervals :: "(nat \<times> jsstring) list"
  nextIntervalId :: nat
  typewriterDeps :: "jsstring option"
  typewriterCleanup :: "nat option"
  displayDeps :: "(nat \<times> jsstring) option"

text \<open>The state of the first render: \<open>useState\<close> initial values, no effect has run.\<close>

definition initial_ui :: ui where
  "initial_ui =
     \<lparr> translatedAiSummary = js ''AI analysis loading...'',
       visibleCharacters = 0,
       displayedAiSummary = [],
       intervals = [],
       nextIntervalId = 0,
       typewriterDeps = None,
       typewriterCleanup = None,
       displayDeps = None \<rparr>"

definition clearInterval :: "nat \<Rightarrow> ui \<Rightarrow> ui" where
  "clearInterval i st = st\<lparr>intervals := filter (\<lambda>(j, plain). j \<noteq> i) (intervals st)\<rparr>"

text \<open>
  The typewriter effect (dependencies \<open>[translatedAiSummary]\<close>). \<open>rendered\<close> is the render
  whose values the effect closes over; the updates go to \<open>st\<close>. Before the body runs,
  React runs the cleanup of the previous run, if that run returned one.
\<close>

definition typewriter_effect :: "ui \<Rightarrow> ui \<Rightarrow> ui" where
  "typewriter_effect rendered st =
     (let st1 = (case typewriterCleanup st of None \<Rightarrow> st | Some i \<Rightarrow> clearInterval i st);
          st2 = st1\<lparr>typewriterDeps := Some (translatedAiSummary rendered)\<rparr>
      in if translatedAiSummary rendered = [] then
           st2\<lparr>displayedAiSummary := [], visibleCharacters := 0, typewriterCleanup := None\<rparr>
         else
           st2\<lparr>visibleCharacters := 0,
               intervals := intervals st2 @
                 [(nextIntervalId st2, stripMarkdown (translatedAiSummary rendered))],
               typewriterCleanup := Some (nextIntervalId st2),
               nextIntervalId := Suc (nextIntervalId st2)\<rparr>)"

text \<open>The effect with dependencies \<open>[visibleCharacters, translatedAiSummary]\<close>.\<close>

definition display_effect :: "ui \<Rightarrow> ui \<Rightarrow> ui" where
  "display_effect rendered st =
     (let st1 = st\<lparr>displayDeps :=
                   Some (visibleCharacters rendered, translatedAiSummary rendered)\<rparr>
      in if translatedAiSummary rendered \<noteq> [] then
           st1\<lparr>displayedAiSummary :=
                 take (visibleCharacters rendered) (stripMarkdown (translatedAiSummary rendered))\<rparr>
         else st1)"

text \<open>
  One render followed by its effects: each effect runs when its dependencies differ from
  those of its last run, in the order of the source, on the values of this render.
\<close>

definition render_pass :: "ui \<Rightarrow> ui" where
  "render_pass st =
     (let st1 = (if typewriterDeps st \<noteq> Some (translatedAiSummary st)
                 then typewriter_effect st st else st);
          st2 = (if displayDeps st \<noteq> Some (visibleCharacters st, translatedAiSummary st)
                 then display_effect st st1 else st1)
      in st2)"

text \<open>
  The callback of the timer \<open>i\<close>: the updater of \<open>setVisibleCharacters\<close> on the current
  count, with the \<open>plainAiSummary\<close> the timer captured. A cleared timer does not fire.
\<close>

definition tick :: "nat \<Rightarrow> ui \<Rightarrow> ui" where
  "tick i st =
     (case map_of (intervals st) i of
        None \<Rightarrow> st
      | Some plainAiSummary \<Rightarrow>
          if visibleCharacters st < length plainAiSummary
          then st\<lparr>visibleCharacters := Suc (visibleCharacters st)\<rparr>
          else clearInterval i st)"

text \<open>\<open>setTranslatedAiSummary(t)\<close>\<close>

definition setTranslatedAiSummary :: "jsstring \<Rightarrow> ui \<Rightarrow> ui" where
  "setTranslatedAiSummary t st = st\<lparr>translatedAiSummary := t\<rparr>"

text \<open>
  The states the component reaches: from the first render, by a new translated summary,
  a timer firing, or a render with its effects.
\<close>

inductive reachable :: "ui \<Rightarrow> bool" where
  init: "reachable initial_ui"
| set_summary: "reachable st \<Longrightarrow> reachable (setTranslatedAiSummary t st)"
| timer: "reachable st \<Longrightarrow> reachable (tick i st)"
| render: "reachable st \<Longrightarrow> reachable (render_pass st)"

text \<open>A state in which no effect is due: both effects ran on the current values.\<close>

definition settled :: "ui \<Rightarrow> bool" where
  "settled st \<longleftrightarrow>
     typewriterDeps st = Some (translatedAiSummary st) \<and>
     displayDeps st = Some (visibleCharacters st, translatedAiSummary st)"

text \<open>The timers that run in a state.\<close>

definition running :: "ui \<Rightarrow> nat list" where
  "running st = map fst (intervals st)"

text \<open>
  What holds in every reachable state: the count is bounded by the stripped text of the
  run in progress, at most the timer of that run is running and it captured that text,
  and the displayed string is what the display effect last computed.
\<close>

definition typewriter_invariant :: "ui \<Rightarrow> bool" where
  "typewriter_invariant st \<longleftrightarrow>
     (case typewriterDeps st of
        None \<Rightarrow>
          intervals st = [] \<and> typewriterCleanup st = None \<and> visibleCharacters st = 0 \<and>
          displayDeps st = None \<and> displayedAiSummary st = []
      | Some x \<Rightarrow>
          visibleCharacters st \<le> length (stripMarkdown x) \<and>
          (case typewriterCleanup st of
             None \<Rightarrow> intervals st = [] \<and> x = []
           | Some i \<Rightarrow>
               i < nextIntervalId st \<and> x \<noteq> [] \<and>
               (intervals st = [] \<or> intervals st = [(i, stripMarkdown x)])) \<and>
          (x = [] \<longrightarrow> displayedAiSummary st = []) \<and>
          (case displayDeps st of
             None \<Rightarrow> False
           | Some (n, y) \<Rightarrow>
               y = x \<and> (x \<noteq> [] \<longrightarrow> displayedAiSummary st = take n (stripMarkdown x))))"

text \<open>
  A run of the component: after the first render, a translated summary \<open>t\<close> arrives and is
  rendered, then its timer fires \<open>n\<close> times, each firing followed by a render. The timer of
  the run has identifier 1: the first render started timer 0 for the placeholder text.
\<close>

fun ticks :: "nat \<Rightarrow> nat \<Rightarrow> ui \<Rightarrow> ui" where
  "ticks i 0 st = st"
| "ticks i (Suc n) st = ticks i n (render_pass (tick i st))"

definition reveal :: "jsstring \<Rightarrow> nat \<Rightarrow> ui" where
  "reveal t n =
     ticks 1 n (render_pass (render_pass (setTranslatedAiSummary t (render_pass initial_ui))))"

text \<open>A text that still holds a marker pair one of the alternatives matches.\<close>

fun has_pair :: "(jschar \<times> jsstring) list \<Rightarrow> jsstring \<Rightarrow> bool" where
  "has_pair alternatives [] = False"
| "has_pair alternatives (c # cs) =
     (match_pair alternatives (c # cs) \<noteq> None \<or> has_pair alternatives cs)"

text \<open>
  Markup with no nesting: a text cut into spans, each plain text or one bold or italic
  pair around a content. Marker characters occur in the markers only, the content of a
  pair is not empty and stays on one line, and a pair is followed by plain text or ends
  the text.
\<close>

datatype span = Plain jsstring | Bold jschar jsstring | Italic jschar jsstring

fun source :: "span \<Rightarrow> jsstring" where
  "source (Plain s) = s"
| "source (Bold c s) = [c, c] @ s @ [c, c]"
| "source (Italic c s) = [c] @ s @ [c]"

fun shown :: "span \<Rightarrow> jsstring" where
  "shown (Plain s) = s"
| "shown (Bold c s) = s"
| "shown (Italic c s) = s"

definition is_marker :: "jschar \<Rightarrow> bool" where
  "is_marker c \<longleftrightarrow> c = asterisk \<or> c = underscore"

definition marker_free :: "jsstring \<Rightarrow> bool" where
  "marker_free s \<longleftrightarrow> \<not> list_ex is_marker s"

definition single_line :: "jsstring \<Rightarrow> bool" where
  "single_line s \<longleftrightarrow> \<not> list_ex line_terminator s"

fun well_formed_span :: "span \<Rightarrow> bool" where
  "well_formed_span (Plain s) = marker_free s"
| "well_formed_span (Bold c s) = (is_marker c \<and> s \<noteq> [] \<and> marker_free s \<and> single_line s)"
| "well_formed_span (Italic c s) = (is_marker c \<and> s \<noteq> [] \<and> marker_free s \<and> single_line s)"

fun separates :: "span \<Rightarrow> bool" where
  "separates (Plain s) = (s \<noteq> [])"
| "separates (Bold c s) = False"
| "separates (Italic c s) = False"

fun is_plain :: "span \<Rightarrow> bool" where
  "is_plain (Plain s) = True"
| "is_plain (Bold c s) = False"
| "is_plain (Italic c s) = False"

fun flat :: "span list \<Rightarrow> bool" where
  "flat [] = True"
| "flat [x] = well_formed_span x"
| "flat (x # y # zs) = (well_formed_span x \<and> (is_plain x \<or> separates y) \<and> flat (y # zs))"

text \<open>A span after the first pass: the bold pairs are gone, the italic ones are left.\<close>

fun after_bold :: "span \<Rightarrow> jsstring" where
  "after_bold (Plain s) = s"
| "after_bold (Bold c s) = s"
| "after_bold (Italic c s) = [c] @ s @ [c]"

section \<open>Numbers, sorting and the data of the orchestrator\<close>

text \<open>
  A number that arrives in a JSON body is finite, and is taken as the rational it denotes;
  a member that is absent or \<open>null\<close> is \<open>None\<close>. \<open>x || 0\<close> on such a member:
\<close>

definition or_zero :: "rat option \<Rightarrow> rat" where
  "or_zero x = (case x of None \<Rightarrow> 0 | Some v \<Rightarrow> if v = 0 then 0 else v)"

text \<open>\<open>x || 'N/A'\<close>: the result is a number or the string \<open>'N/A'\<close>, here \<open>None\<close>.\<close>

definition or_na :: "rat option \<Rightarrow> rat option" where
  "or_na x = (case x of None \<Rightarrow> None | Some v \<Rightarrow> if v = 0 then None else Some v)"

text \<open>\<open>a || b\<close> on strings: an absent or empty \<open>a\<close> is falsy.\<close>

definition or_else :: "jsstring option \<Rightarrow> jsstring \<Rightarrow> jsstring" where
  "or_else a b = (case a of None \<Rightarrow> b | Some s \<Rightarrow> if s = [] then b else s)"

text \<open>The decimal digits of a natural number, as a template literal prints a status.\<close>

function decimal :: "nat \<Rightarrow> jsstring" where
  "decimal n = (if n < 10 then [of_nat (48 + n)] else decimal (n div 10) @ [of_nat (48 + n mod 10)])"
  by pat_completeness auto
termination
  by (relation "measure id") auto

declare decimal.simps [simp del]

text \<open>
  \<open>Array.prototype.sort(comparefn)\<close>. The comparator returns a number, \<open>None\<close> for
  \<open>NaN\<close>, which the sort counts as 0; \<open>a\<close> goes before \<open>b\<close> only when the result is
  negative. The sort is stable. ECMAScript fixes the result only for a consistent
  comparator; for the others the order is left to the engine, and this insertion sort is
  one order an engine may give.
\<close>

definition negative :: "rat option \<Rightarrow> bool" where
  "negative v = (case v of None \<Rightarrow> False | Some d \<Rightarrow> d < 0)"

fun insert_sorted :: "('a \<Rightarrow> 'a \<Rightarrow> rat option) \<Rightarrow> 'a \<Rightarrow> 'a list \<Rightarrow> 'a list" where
  "insert_sorted comparefn x [] = [x]"
| "insert_sorted comparefn x (y # ys) =
     (if negative (comparefn x y) then x # y # ys else y # insert_sorted comparefn x ys)"

definition js_sort :: "('a \<Rightarrow> 'a \<Rightarrow> rat option) \<Rightarrow> 'a list \<Rightarrow> 'a list" where
  "js_sort comparefn xs = foldl (\<lambda>sorted x. insert_sorted comparefn x sorted) [] xs"

text \<open>\<open>a - b\<close> on two values that are numbers or not (\<open>None\<close>): \<open>NaN\<close> unless both are.\<close>

definition difference :: "rat option \<Rightarrow> rat option \<Rightarrow> rat option" where
  "difference a b = (case (a, b) of (Some x, Some y) \<Rightarrow> Some (x - y) | _ \<Rightarrow> None)"

text \<open>\<open>interface NewsItem\<close>, \<open>interface CoinData\<close>; \<open>cmcRank\<close> is a number or \<open>'N/A'\<close>.\<close>

record NewsItem =
  title :: jsstring
  url :: jsstring

record CoinData =
  coin_id :: jsstring
  name :: jsstring
  symbol :: jsstring
  logo :: jsstring
  currentPrice :: rat
  volume24h :: rat
  percentChange1h :: rat
  percentChange24h :: rat
  percentChange7d :: rat
  marketCap :: rat
  cmcRank :: "rat option"

text \<open>An element of the body of \<open>/api/cryptocurrency/listings/latest\<close>.\<close>

record listing =
  listing_id :: jsstring
  listing_name :: jsstring
  listing_symbol :: jsstring
  listing_logo :: "jsstring option"
  listing_currentPrice :: "rat option"
  listing_volume24h :: "rat option"
  listing_percentChange1h :: "rat option"
  listing_percentChange24h :: "rat option"
  listing_percentChange7d :: "rat option"
  listing_marketCap :: "rat option"
  listing_cmcRank :: "rat option"

text \<open>The body of a response that is not ok: \<open>errorData.error\<close> and \<open>errorData.message\<close>.\<close>

record error_json =
  error_member :: "jsstring option"
  message_member :: "jsstring option"

text \<open>
  The numbers the browser and the \<open>technicalindicators\<close> library compute are kept
  abstract (\<open>'n\<close>, with \<open>NaN\<close> among them), as are the functions on them: \<open>parseFloat\<close>,
  \<open>Number.prototype.toFixed\<close>, \<open>new Date(s).getTime()\<close> (\<open>None\<close> for \<open>NaN\<close>),
  \<open>new Date(s).toLocaleDateString()\<close>, and \<open>RSI.calculate\<close>, \<open>MACD.calculate\<close>,
  \<open>SMA.calculate\<close> on the values and the periods. An element of the output of
  \<open>MACD.calculate\<close> has members that may be \<open>undefined\<close>.
\<close>

record 'n macd_output =
  MACD :: "'n option"
  signal :: "'n option"
  histogram :: "'n option"

record 'n engine =
  parseFloat :: "jsstring \<Rightarrow> 'n"
  toFixed :: "'n \<Rightarrow> nat \<Rightarrow> jsstring"
  date_getTime :: "jsstring \<Rightarrow> rat option"
  toLocaleDateString :: "jsstring \<Rightarrow> jsstring"
  RSI_calculate :: "'n list \<Rightarrow> nat \<Rightarrow> 'n list"
  MACD_calculate :: "'n list \<Rightarrow> nat \<Rightarrow> nat \<Rightarrow> nat \<Rightarrow> 'n macd_output list"
  SMA_calculate :: "'n list \<Rightarrow> nat \<Rightarrow> 'n list"

text \<open>
  \<open>interface ChartData\<close>, with the one dataset the code builds (its colours, tension and
  fill are constants), and \<open>currentIndicators\<close>, where \<open>None\<close> is the string \<open>'N/A'\<close>.
\<close>

record 'n ChartData =
  labels :: "jsstring list"
  dataset_label :: jsstring
  dataset_data :: "'n list"

record 'n IndicatorSnapshot =
  rsi :: "'n option"
  macd :: "'n option"
  macdSignal :: "'n option"
  macdHistogram :: "'n option"
  sma50 :: "'n option"
  sma200 :: "'n option"
  volume :: rat

text \<open>
  The state variables of \<open>App\<close> the fetches write. \<open>indicators\<close> is \<open>None\<close> for the empty
  object \<open>{}\<close>.
\<close>

record 'n app =
  coins :: "CoinData list"
  selected :: jsstring
  chartData :: "'n ChartData option"
  chartLoading :: bool
  chartError :: "jsstring option"
  indicators :: "'n IndicatorSnapshot option"
  loadingInitialData :: bool
  initialDataError :: "jsstring option"
  aiSummary :: jsstring
  news :: "NewsItem list"
  newsLoading :: bool
  newsError :: "jsstring option"

definition initial_app :: "'n app" where
  "initial_app =
     \<lparr> coins = [], selected = js ''BTC'', chartData = None, chartLoading = False,
       chartError = None, indicators = None, loadingInitialData = True,
       initialDataError = None, aiSummary = js ''AI analysis loading...'', news = [],
       newsLoading = False, newsError = None \<rparr>"

section \<open>fetchCoins\<close>

definition to_CoinData :: "listing \<Rightarrow> CoinData" where
  "to_CoinData coin =
     \<lparr> coin_id = listing_id coin,
       name = listing_name coin,
       symbol = listing_symbol coin,
       logo = or_else (listing_logo coin) (js ''https://cryptologos.cc/logos/placeholder-logo.png''),
       currentPrice = or_zero (listing_currentPrice coin),
       volume24h = or_zero (listing_volume24h coin),
       percentChange1h = or_zero (listing_percentChange1h coin),
       percentChange24h = or_zero (listing_percentChange24h coin),
       percentChange7d = or_zero (listing_percentChange7d coin),
       marketCap = or_zero (listing_marketCap coin),
       cmcRank = or_na (listing_cmcRank coin) \<rparr>"

text \<open>The comparator \<open>(a, b) => a.cmcRank - b.cmcRank\<close>.\<close>

definition by_rank :: "CoinData \<Rightarrow> CoinData \<Rightarrow> rat option" where
  "by_rank a b = difference (cmcRank a) (cmcRank b)"

text \<open>The \<open>catch\<close> and \<open>finally\<close> blocks of \<open>fetchCoins\<close>.\<close>

definition quotes_failed :: "jsstring \<Rightarrow> 'n app \<Rightarrow> 'n app" where
  "quotes_failed m st = st\<lparr>initialDataError := Some m, loadingInitialData := False\<rparr>"

definition fetchCoins :: "(error_json, listing list) fetch_outcome \<Rightarrow> 'n app \<Rightarrow> 'n app" where
  "fetchCoins outcome st =
     (case outcome of
        FetchRejected m \<Rightarrow> quotes_failed m st
      | HttpError status statusText (Inl m) \<Rightarrow> quotes_failed m st
      | HttpError status statusText (Inr errorData) \<Rightarrow>
          quotes_failed
            (js ''API Error: '' @ decimal status @ js '' - '' @
               or_else (error_member errorData) statusText) st
      | HttpOk (Inl m) \<Rightarrow> quotes_failed m st
      | HttpOk (Inr json) \<Rightarrow>
          (let fetchedCoins = js_sort by_rank (map to_CoinData json)
           in st\<lparr>coins := fetchedCoins,
                 selected := (case fetchedCoins of [] \<Rightarrow> selected st | c # cs \<Rightarrow> symbol c),
                 loadingInitialData := False\<rparr>))"

text \<open>A listing with a symbol and a rank, every other member absent.\<close>

definition listing_of :: "string \<Rightarrow> rat option \<Rightarrow> listing" where
  "listing_of s r =
     \<lparr> listing_id = js s, listing_name = js s, listing_symbol = js s, listing_logo = None,
       listing_currentPrice = None, listing_volume24h = None, listing_percentChange1h = None,
       listing_percentChange24h = None, listing_percentChange7d = None,
       listing_marketCap = None, listing_cmcRank = r \<rparr>"

section \<open>fetchChartAndIndicatorsData\<close>

text \<open>
  The parsed bodies of the three endpoints follow the backend's contract: the OHLCV body
  is its member \<open>values\<close> (\<open>None\<close> when absent), a list of candles of which the code reads
  \<open>datetime\<close> and \<open>close\<close>; the analysis body is its member \<open>analysis\<close>; the news body
  is its member \<open>news\<close>.
\<close>

record candle =
  datetime :: jsstring
  close :: jsstring

text \<open>The body of the \<open>POST\<close> to \<open>/api/ai/analyze-crypto\<close>.\<close>

record 'n analyze_body =
  body_symbol :: jsstring
  body_currentPrice :: rat
  body_percentChange24h :: rat
  body_marketCap :: rat
  body_rsi :: "'n option"
  body_macd :: "'n option"
  body_sma50 :: "'n option"
  body_sma200 :: "'n option"
  body_volume :: rat
  body_news :: "NewsItem list"

text \<open>The requests a cycle issues: OHLCV history and news by symbol, analysis by body.\<close>

datatype 'n request =
    OhlcvRequest jsstring
  | AnalyzeRequest "'n analyze_body"
  | NewsRequest jsstring

text \<open>
  What the closure of \<open>fetchChartAndIndicatorsData\<close> captured from the render that
  started it: \<open>selected\<close>, the coin found in \<open>coins\<close>, and \<open>news\<close>.
\<close>

record closure =
  captured_selected :: jsstring
  captured_coin :: CoinData
  captured_news :: "NewsItem list"

text \<open>\<open>xs.length > 0 ? xs[xs.length - 1] : 'N/A'\<close>\<close>

definition last_or_na :: "'a list \<Rightarrow> 'a option" where
  "last_or_na xs = (if xs = [] then None else Some (last xs))"

text \<open>\<open>typeof v === 'number' ? parseFloat(v.toFixed(digits)) : 'N/A'\<close>\<close>

definition rounded :: "'n engine \<Rightarrow> nat \<Rightarrow> 'n option \<Rightarrow> 'n option" where
  "rounded eng digits v =
     (case v of None \<Rightarrow> None | Some x \<Rightarrow> Some (parseFloat eng (toFixed eng x digits)))"

text \<open>The last values of the four series, before rounding.\<close>

definition currentRsi :: "'n engine \<Rightarrow> 'n list \<Rightarrow> 'n option" where
  "currentRsi eng closePrices = last_or_na (RSI_calculate eng closePrices 14)"

definition currentMacd :: "'n engine \<Rightarrow> 'n list \<Rightarrow> 'n macd_output" where
  "currentMacd eng closePrices =
     (case last_or_na (MACD_calculate eng closePrices 12 26 9) of
        None \<Rightarrow> \<lparr>MACD = None, signal = None, histogram = None\<rparr>
      | Some m \<Rightarrow> m)"

definition currentSma :: "'n engine \<Rightarrow> nat \<Rightarrow> 'n list \<Rightarrow> 'n option" where
  "currentSma eng period closePrices = last_or_na (SMA_calculate eng closePrices period)"

definition currentIndicators :: "'n engine \<Rightarrow> 'n list \<Rightarrow> 'n IndicatorSnapshot" where
  "currentIndicators eng closePrices =
     \<lparr> rsi = rounded eng 2 (currentRsi eng closePrices),
       macd = rounded eng 4 (MACD (currentMacd eng closePrices)),
       macdSignal = rounded eng 4 (signal (currentMacd eng closePrices)),
       macdHistogram = rounded eng 4 (histogram (currentMacd eng closePrices)),
       sma50 = rounded eng 4 (currentSma eng 50 closePrices),
       sma200 = rounded eng 4 (currentSma eng 200 closePrices),
       volume = 0 \<rparr>"

text \<open>The comparator of \<open>history.sort\<close>: the difference of the two times.\<close>

definition by_datetime :: "'n engine \<Rightarrow> candle \<Rightarrow> candle \<Rightarrow> rat option" where
  "by_datetime eng a b =
     difference (date_getTime eng (datetime a)) (date_getTime eng (datetime b))"

definition analysis_request :: "closure \<Rightarrow> 'n IndicatorSnapshot \<Rightarrow> 'n analyze_body" where
  "analysis_request cl ind =
     \<lparr> body_symbol = captured_selected cl,
       body_currentPrice = or_zero (Some (currentPrice (captured_coin cl))),
       body_percentChange24h = or_zero (Some (percentChange24h (captured_coin cl))),
       body_marketCap = or_zero (Some (marketCap (captured_coin cl))),
       body_rsi = rsi ind,
       body_macd = macd ind,
       body_sma50 = sma50 ind,
       body_sma200 = sma200 ind,
       body_volume = or_zero (Some (volume24h (captured_coin cl))),
       body_news = captured_news cl \<rparr>"

text \<open>
  One \<open>fetch\<close> up to the parsed body, as each of the three requests does it:
  \<open>if (!response.ok) { const errorData = await response.json(); throw new Error(...) }\<close>
  and then \<open>await response.json()\<close>. \<open>Inl m\<close> is an exception with message \<open>m\<close>.
  The thrown message names the endpoint and the status, and then \<open>errorData.error\<close> or
  the status text; the OHLCV request alone also tries \<open>errorData.message\<close>.
\<close>

definition fetch_json ::
  "jsstring \<Rightarrow> bool \<Rightarrow> (error_json, 'b) fetch_outcome \<Rightarrow> jsstring + 'b" where
  "fetch_json endpoint_name with_message outcome =
     (case outcome of
        FetchRejected m \<Rightarrow> Inl m
      | HttpError status statusText (Inl m) \<Rightarrow> Inl m
      | HttpError status statusText (Inr errorData) \<Rightarrow>
          Inl (endpoint_name @ js '' API Error: '' @ decimal status @ js '' - '' @
               or_else (error_member errorData)
                 (if with_message then or_else (message_member errorData) statusText
                  else statusText))
      | HttpOk (Inl m) \<Rightarrow> Inl m
      | HttpOk (Inr b) \<Rightarrow> Inr b)"

definition fetch_ohlcv ::
  "(error_json, candle list option) fetch_outcome \<Rightarrow> jsstring + candle list option" where
  "fetch_ohlcv outcome = fetch_json (js ''Twelve Data OHLCV'') True outcome"

definition fetch_analysis :: "(error_json, jsstring) fetch_outcome \<Rightarrow> jsstring + jsstring" where
  "fetch_analysis outcome = fetch_json (js ''AI Analysis'') False outcome"

definition fetch_news ::
  "(error_json, NewsItem list) fetch_outcome \<Rightarrow> jsstring + NewsItem list" where
  "fetch_news outcome = fetch_json (js ''Tavily News'') False outcome"

text \<open>The \<open>catch\<close> block of the outer \<open>try\<close>, on \<open>e.message\<close>, and the \<open>finally\<close> block.\<close>

definition catch_block :: "jsstring \<Rightarrow> 'n app \<Rightarrow> 'n app" where
  "catch_block m st =
     st\<lparr>chartError := Some m, indicators := None,
        aiSummary := js ''AI analysis error: '' @ m, newsError := Some m, news := []\<rparr>"

definition finally_block :: "'n app \<Rightarrow> 'n app" where
  "finally_block st = st\<lparr>chartLoading := False, newsLoading := False\<rparr>"

text \<open>The \<open>else\<close> branch for an OHLCV body with no values.\<close>

definition no_data :: "'n app \<Rightarrow> 'n app" where
  "no_data st =
     st\<lparr>chartData := None, indicators := None,
        chartError := Some (js ''No OHLCV data found for this coin from Twelve Data.''),
        aiSummary := js ''No data to analyze.'', news := []\<rparr>"

text \<open>
  The synchronous start of the function, on the state of the render. When no coin has
  the selected symbol the function returns before its \<open>try\<close>, so without the
  \<open>finally\<close> block; else it issues the OHLCV request and waits.
\<close>

definition start_cycle :: "'n app \<Rightarrow> 'n app \<times> closure option" where
  "start_cycle st =
     (let st1 = st\<lparr>chartLoading := True, chartError := None, newsLoading := True,
                     newsError := None\<rparr>
      in case find (\<lambda>c. symbol c = selected st) (coins st) of
           None \<Rightarrow>
             (st1\<lparr>chartData := None, indicators := None,
                  aiSummary := js ''Please select a coin to view data.'', news := [],
                  newsLoading := False\<rparr>, None)
         | Some currentCoin \<Rightarrow>
             (st1, Some \<lparr>captured_selected = selected st, captured_coin = currentCoin,
                         captured_news = news st\<rparr>))"

text \<open>
  The function resumed with the outcome of the OHLCV request, on the state at that
  moment: the result is the new state and, when the function goes on, the body of the
  analysis request it issues.
\<close>

definition on_ohlcv ::
  "'n engine \<Rightarrow> closure \<Rightarrow> (error_json, candle list option) fetch_outcome \<Rightarrow> 'n app \<Rightarrow>
     'n app \<times> 'n analyze_body option" where
  "on_ohlcv eng cl outcome st =
     (case fetch_ohlcv outcome of
        Inl m \<Rightarrow> (finally_block (catch_block m st), None)
      | Inr None \<Rightarrow> (finally_block (no_data st), None)
      | Inr (Some []) \<Rightarrow> (finally_block (no_data st), None)
      | Inr (Some (v # vs)) \<Rightarrow>
          (let history = js_sort (by_datetime eng) (v # vs);
               labels = map (\<lambda>data. toLocaleDateString eng (datetime data)) history;
               prices = map (\<lambda>data. parseFloat eng (close data)) history;
               st1 = st\<lparr>chartData := Some \<lparr>labels = labels,
                          dataset_label = captured_selected cl @ js '' Price (USD)'',
                          dataset_data = prices\<rparr>\<rparr>;
               closePrices = map (\<lambda>data. parseFloat eng (close data)) history;
               ind = currentIndicators eng closePrices;
               st2 = st1\<lparr>indicators := Some ind\<rparr>
           in (st2, Some (analysis_request cl ind))))"

text \<open>
  Resumed with the outcome of the analysis request: a failure is thrown to the outer
  \<open>catch\<close>; on success the function issues the news request for the captured symbol.
\<close>

definition on_analysis ::
  "closure \<Rightarrow> (error_json, jsstring) fetch_outcome \<Rightarrow> 'n app \<Rightarrow> 'n app \<times> jsstring option" where
  "on_analysis cl outcome st =
     (case fetch_analysis outcome of
        Inl m \<Rightarrow> (finally_block (catch_block m st), None)
      | Inr analysis \<Rightarrow> (st\<lparr>aiSummary := analysis\<rparr>, Some (captured_selected cl)))"

text \<open>Resumed with the outcome of the news request, inside the inner \<open>try\<close>.\<close>

definition news_failed :: "jsstring \<Rightarrow> 'n app \<Rightarrow> 'n app" where
  "news_failed m st = st\<lparr>newsError := Some m, news := []\<rparr>"

definition on_news :: "(error_json, NewsItem list) fetch_outcome \<Rightarrow> 'n app \<Rightarrow> 'n app" where
  "on_news outcome st =
     (case fetch_news outcome of
        Inl m \<Rightarrow> finally_block (news_failed m st)
      | Inr items \<Rightarrow> finally_block (st\<lparr>news := items\<rparr>))"

text \<open>The three endpoints, as functions from the request to the outcome.\<close>

record 'n network =
  ohlcv_endpoint :: "jsstring \<Rightarrow> (error_json, candle list option) fetch_outcome"
  analyze_endpoint :: "'n analyze_body \<Rightarrow> (error_json, jsstring) fetch_outcome"
  news_endpoint :: "jsstring \<Rightarrow> (error_json, NewsItem list) fetch_outcome"

text \<open>
  One cycle run alone, from start to end, against a network: the final state and the
  requests issued, in order.
\<close>

definition fetchChartAndIndicatorsData ::
  "'n engine \<Rightarrow> 'n network \<Rightarrow> 'n app \<Rightarrow> 'n app \<times> 'n request list" where
  "fetchChartAndIndicatorsData eng net st =
     (case start_cycle st of
        (st1, None) \<Rightarrow> (st1, [])
      | (st1, Some cl) \<Rightarrow>
          (case on_ohlcv eng cl (ohlcv_endpoint net (captured_selected cl)) st1 of
             (st2, None) \<Rightarrow> (st2, [OhlcvRequest (captured_selected cl)])
           | (st2, Some body) \<Rightarrow>
               (case on_analysis cl (analyze_endpoint net body) st2 of
                  (st3, None) \<Rightarrow>
                    (st3, [OhlcvRequest (captured_selected cl), AnalyzeRequest body])
                | (st3, Some s) \<Rightarrow>
                    (on_news (news_endpoint net s) st3,
                     [OhlcvRequest (captured_selected cl), AnalyzeRequest body, NewsRequest s]))))"

section \<open>What the page shows\<close>

text \<open>
  The chart region: \<open>chartLoading ? ... : chartError ? ... : chartData ? ... : ...\<close>; an
  empty error string is falsy. The news region is chosen the same way.
\<close>

datatype 'n chart_region =
    ChartLoading
  | ChartErrorShown jsstring
  | ChartShown "'n ChartData"
  | ChartEmpty

definition chart_region :: "'n app \<Rightarrow> 'n chart_region" where
  "chart_region st =
     (if chartLoading st then ChartLoading
      else case chartError st of
             Some e \<Rightarrow> if e \<noteq> [] then ChartErrorShown e
                        else (case chartData st of Some d \<Rightarrow> ChartShown d | None \<Rightarrow> ChartEmpty)
           | None \<Rightarrow> (case chartData st of Some d \<Rightarrow> ChartShown d | None \<Rightarrow> ChartEmpty))"

text \<open>
  A cell of the indicator table:
  \<open>typeof indicators.rsi === 'number' ? indicators.rsi.toFixed(2) : 'N/A'\<close>, and the six
  cells in the order of the table.
\<close>

definition indicator_cell :: "'n engine \<Rightarrow> nat \<Rightarrow> 'n option \<Rightarrow> jsstring" where
  "indicator_cell eng digits v =
     (case v of None \<Rightarrow> js ''N/A'' | Some x \<Rightarrow> toFixed eng x digits)"

definition indicator_table :: "'n engine \<Rightarrow> 'n IndicatorSnapshot option \<Rightarrow> jsstring list" where
  "indicator_table eng ind =
     (case ind of
        None \<Rightarrow> [js ''N/A'', js ''N/A'', js ''N/A'', js ''N/A'', js ''N/A'', js ''N/A'']
      | Some i \<Rightarrow>
          [indicator_cell eng 2 (rsi i), indicator_cell eng 4 (macd i),
           indicator_cell eng 4 (macdSignal i), indicator_cell eng 4 (macdHistogram i),
           indicator_cell eng 4 (sma50 i), indicator_cell eng 4 (sma200 i)])"

text \<open>The close prices the indicators are computed from: parsed, in the sorted order.\<close>

definition closePrices_of :: "'n engine \<Rightarrow> candle list \<Rightarrow> 'n list" where
  "closePrices_of eng vs =
     map (\<lambda>data. parseFloat eng (close data)) (js_sort (by_datetime eng) vs)"

section \<open>Overlapping cycles\<close>

text \<open>
  The effect with dependencies \<open>[selected, coins]\<close> has no cleanup and the function
  reads no flag: a cycle that was started goes on to its end whatever is selected by
  then. The cycles in flight are kept in the order they started, each with what its
  closure captured and the request it waits for (\<open>None\<close> once it has ended).
\<close>

datatype 'n stage =
    AwaitOhlcv
  | AwaitAnalysis "'n analyze_body"
  | AwaitNews jsstring

record 'n world =
  page :: "'n app"
  cycles :: "(closure \<times> 'n stage option) list"

text \<open>
  The body of the effect with dependencies \<open>[selected, coins]\<close>: it calls the function
  when \<open>selected\<close> is not empty, on the state of the render.
\<close>

definition detail_effect :: "'n world \<Rightarrow> 'n world" where
  "detail_effect w =
     (if selected (page w) = [] then w
      else (case start_cycle (page w) of
              (st, None) \<Rightarrow> w\<lparr>page := st\<rparr>
            | (st, Some cl) \<Rightarrow> w\<lparr>page := st, cycles := cycles w @ [(cl, Some AwaitOhlcv)]\<rparr>))"

text \<open>
  What happens to the page: the quote list arrives, the user selects a symbol, or the
  response a cycle waits for arrives (the cycle given by its position). A response for a
  cycle that does not wait for it changes nothing. The effect runs on the render after a
  dependency changed: \<open>setCoins\<close> stores a new array, and \<open>setSelected\<close> changes the
  state when the symbol differs; the two calls of \<open>fetchCoins\<close> are rendered together.
\<close>

datatype event =
    QuotesArrive "(error_json, listing list) fetch_outcome"
  | Select jsstring
  | OhlcvArrives nat "(error_json, candle list option) fetch_outcome"
  | AnalysisArrives nat "(error_json, jsstring) fetch_outcome"
  | NewsArrives nat "(error_json, NewsItem list) fetch_outcome"

definition stores_coins :: "(error_json, listing list) fetch_outcome \<Rightarrow> bool" where
  "stores_coins outcome = (case outcome of HttpOk (Inr json) \<Rightarrow> True | _ \<Rightarrow> False)"

definition waiting :: "'n world \<Rightarrow> nat \<Rightarrow> (closure \<times> 'n stage) option" where
  "waiting w k =
     (if k < length (cycles w) then
        (case cycles w ! k of (cl, Some s) \<Rightarrow> Some (cl, s) | (cl, None) \<Rightarrow> None)
      else None)"

definition step :: "'n engine \<Rightarrow> event \<Rightarrow> 'n world \<Rightarrow> 'n world" where
  "step eng e w =
     (case e of
        QuotesArrive outcome \<Rightarrow>
          (if stores_coins outcome
           then detail_effect (w\<lparr>page := fetchCoins outcome (page w)\<rparr>)
           else w\<lparr>page := fetchCoins outcome (page w)\<rparr>)
      | Select s \<Rightarrow>
          (if s = selected (page w) then w
           else detail_effect (w\<lparr>page := (page w)\<lparr>selected := s\<rparr>\<rparr>))
      | OhlcvArrives k outcome \<Rightarrow>
          (case waiting w k of
             Some (cl, AwaitOhlcv) \<Rightarrow>
               (case on_ohlcv eng cl outcome (page w) of
                  (st, next) \<Rightarrow>
                    w\<lparr>page := st,
                      cycles := (cycles w)[k := (cl, map_option AwaitAnalysis next)]\<rparr>)
           | _ \<Rightarrow> w)
      | AnalysisArrives k outcome \<Rightarrow>
          (case waiting w k of
             Some (cl, AwaitAnalysis body) \<Rightarrow>
               (case on_analysis cl outcome (page w) of
                  (st, next) \<Rightarrow>
                    w\<lparr>page := st, cycles := (cycles w)[k := (cl, map_option AwaitNews next)]\<rparr>)
           | _ \<Rightarrow> w)
      | NewsArrives k outcome \<Rightarrow>
          (case waiting w k of
             Some (cl, AwaitNews s) \<Rightarrow>
               w\<lparr>page := on_news outcome (page w), cycles := (cycles w)[k := (cl, None)]\<rparr>
           | _ \<Rightarrow> w))"

fun run :: "'n engine \<Rightarrow> event list \<Rightarrow> 'n world \<Rightarrow> 'n world" where
  "run eng [] w = w"
| "run eng (e # es) w = run eng es (step eng e w)"

text \<open>
  The page after its first render: the effect has run once, on the initial state, where
  no coin is loaded yet.
\<close>

definition mounted :: "'n world" where
  "mounted = \<lparr>page = fst (start_cycle initial_app), cycles = []\<rparr>"

text \<open>
  The sibling effect that translates the summary does discard a stale result: its cleanup
  clears \<open>isMounted\<close>, and the resolved translation is stored only
  \<open>if (isMounted && currentLanguage === language)\<close>, where both languages are those of
  the render that started the run.
\<close>

definition translation_resolves :: "bool \<Rightarrow> Language \<Rightarrow> jsstring \<Rightarrow> ui \<Rightarrow> ui" where
  "translation_resolves isMounted language translated st =
     (let currentLanguage = language
      in if isMounted \<and> currentLanguage = language then setTranslatedAiSummary translated st
         else st)"

section \<open>An engine for the examples\<close>

text \<open>
  The examples need one concrete engine. Its numbers are \<open>NaN\<close> and the rationals (a
  finite double is one). \<open>toFixed\<close> follows ECMAScript for numbers below \<open>10^21\<close>: the
  integer \<open>n\<close> nearest to \<open>x * 10^digits\<close>, the larger one on a tie, printed with the
  point \<open>digits\<close> places from the right. \<open>parseFloat\<close> reads a sign, digits and a
  fraction, and gives \<open>NaN\<close> when there is no digit; it stands for the engine on such
  literals, with the decimal value in place of the nearest double. The dates are
  ordered by their digits, as ISO dates are; the label of a date is the date string
  itself; and the three library functions return series given in advance, as a test
  double does.
\<close>

datatype jsnum = NaN | Num rat

definition pad_zeros :: "nat \<Rightarrow> jsstring \<Rightarrow> jsstring" where
  "pad_zeros width ds = replicate (width - length ds) 0x0030 @ ds"

definition decimal_toFixed :: "jsnum \<Rightarrow> nat \<Rightarrow> jsstring" where
  "decimal_toFixed v digits =
     (case v of
        NaN \<Rightarrow> js ''NaN''
      | Num x \<Rightarrow>
          (let n = nat \<lfloor>\<bar>x\<bar> * 10 ^ digits + 1 / 2\<rfloor>;
               ds = pad_zeros (Suc digits) (decimal n);
               k = length ds - digits;
               m = (if digits = 0 then ds else take k ds @ [0x002E] @ drop k ds)
           in if x < 0 then 0x002D # m else m))"

definition digit_value :: "jschar \<Rightarrow> nat option" where
  "digit_value c = (if 0x0030 \<le> c \<and> c \<le> 0x0039 then Some (unat c - 48) else None)"

fun leading_digits :: "jsstring \<Rightarrow> nat list \<times> jsstring" where
  "leading_digits [] = ([], [])"
| "leading_digits (c # cs) =
     (case digit_value c of
        None \<Rightarrow> ([], c # cs)
      | Some d \<Rightarrow> (case leading_digits cs of (ds, rest) \<Rightarrow> (d # ds, rest)))"

definition digits_value :: "nat list \<Rightarrow> nat" where
  "digits_value ds = foldl (\<lambda>a d. 10 * a + d) 0 ds"

definition decimal_parseFloat :: "jsstring \<Rightarrow> jsnum" where
  "decimal_parseFloat s =
     (let negated = (case s of [] \<Rightarrow> False | c # cs \<Rightarrow> c = 0x002D);
          unsigned = (case s of [] \<Rightarrow> []
                      | c # cs \<Rightarrow> if c = 0x002D \<or> c = 0x002B then cs else c # cs);
          whole = leading_digits unsigned;
          fraction = (case snd whole of [] \<Rightarrow> []
                      | c # cs \<Rightarrow> if c = 0x002E then fst (leading_digits cs) else [])
      in if fst whole = [] \<and> fraction = [] then NaN
         else let magnitude = of_nat (digits_value (fst whole))
                              + of_nat (digits_value fraction) / 10 ^ length fraction
              in Num (if negated then - magnitude else magnitude))"

definition digits_getTime :: "jsstring \<Rightarrow> rat option" where
  "digits_getTime s =
     (case List.map_filter digit_value s of
        [] \<Rightarrow> None
      | d # ds \<Rightarrow> Some (of_nat (digits_value (d # ds))))"

definition series_engine ::
  "jsnum list \<Rightarrow> jsnum macd_output list \<Rightarrow> jsnum list \<Rightarrow> jsnum list \<Rightarrow> jsnum engine" where
  "series_engine rsi_series macd_series sma50_series sma200_series =
     \<lparr> parseFloat = decimal_parseFloat,
       toFixed = decimal_toFixed,
       date_getTime = digits_getTime,
       toLocaleDateString = (\<lambda>s. s),
       RSI_calculate = (\<lambda>values period. rsi_series),
       MACD_calculate = (\<lambda>values fastPeriod slowPeriod signalPeriod. macd_series),
       SMA_calculate = (\<lambda>values period. if period = 50 then sma50_series else sma200_series) \<rparr>"

text \<open>The engine on a history too short for any indicator: every series is empty.\<close>

definition short_history_engine :: "jsnum engine" where
  "short_history_engine = series_engine [] [] [] []"

text \<open>
  The data of the examples: the page once the quotes BTC (rank 1) and ETH (rank 2) are
  stored, a history of one candle, two news items, an error body, and the network that
  answers every request to an endpoint with the same outcome.
\<close>

definition quotes_page :: "jsnum app" where
  "quotes_page =
     fetchCoins (HttpOk (Inr [listing_of ''BTC'' (Some 1), listing_of ''ETH'' (Some 2)]))
       initial_app"

definition one_candle :: "candle list" where
  "one_candle = [\<lparr>datetime = js ''2024-01-15'', close = js ''42000.5''\<rparr>]"

definition two_items :: "NewsItem list" where
  "two_items =
     [\<lparr>title = js ''ETF inflows rise'', url = js ''https://news.example/1''\<rparr>,
      \<lparr>title = js ''Hash rate at a new high'', url = js ''https://news.example/2''\<rparr>]"

definition boom :: error_json where
  "boom = \<lparr>error_member = Some (js ''boom''), message_member = None\<rparr>"

definition constant_network ::
  "(error_json, candle list option) fetch_outcome \<Rightarrow> (error_json, jsstring) fetch_outcome \<Rightarrow>
     (error_json, NewsItem list) fetch_outcome \<Rightarrow> jsnum network" where
  "constant_network ohlcv_outcome analysis_outcome news_outcome =
     \<lparr> ohlcv_endpoint = (\<lambda>s. ohlcv_outcome),
       analyze_endpoint = (\<lambda>body. analysis_outcome),
       news_endpoint = (\<lambda>s. news_outcome) \<rparr>"

text \<open>
  The page after a cycle for BTC that succeeded at every step, and the same page once
  the user has selected ETH.
\<close>

definition after_btc_cycle :: "jsnum app" where
  "after_btc_cycle =
     fst (fetchChartAndIndicatorsData short_history_engine
            (constant_network (HttpOk (Inr (Some one_candle))) (HttpOk (Inr (js ''BTC: buy.'')))
               (HttpOk (Inr two_items)))
            quotes_page)"

definition eth_selected :: "jsnum app" where
  "eth_selected = after_btc_cycle\<lparr>selected := js ''ETH''\<rparr>"

text \<open>
  Two selections in quick succession: the quotes arrive and the cycle for BTC starts
  (cycle 0), the user selects ETH and its cycle starts (cycle 1); then the three responses
  of one cycle arrive, then those of the other.
\<close>

definition eth_item :: "NewsItem list" where
  "eth_item = [\<lparr>title = js ''Staking yield falls'', url = js ''https://news.example/3''\<rparr>]"

definition both_started :: "event list" where
  "both_started =
     [QuotesArrive (HttpOk (Inr [listing_of ''BTC'' (Some 1), listing_of ''ETH'' (Some 2)])),
      Select (js ''ETH'')]"

definition responses :: "nat \<Rightarrow> jsstring \<Rightarrow> NewsItem list \<Rightarrow> event list" where
  "responses k analysis items =
     [OhlcvArrives k (HttpOk (Inr (Some one_candle))),
      AnalysisArrives k (HttpOk (Inr analysis)),
      NewsArrives k (HttpOk (Inr items))]"

definition btc_resolves_last :: "jsnum world" where
  "btc_resolves_last =
     run short_history_engine
       (both_started @ responses 1 (js ''ETH: hold.'') eth_item
          @ responses 0 (js ''BTC: buy.'') two_items)
       mounted"

definition btc_resolves_first :: "jsnum world" where
  "btc_resolves_first =
     run short_history_engine (both_started @ responses 0 (js ''BTC: buy.'') two_items) mounted"

text \<open>
  What the cycle for BTC captured on the page with the quotes, and an engine whose RSI
  series ends with 45.678.
\<close>

definition btc_closure :: closure where
  "btc_closure =
     \<lparr> captured_selected = js ''BTC'',
       captured_coin = to_CoinData (listing_of ''BTC'' (Some 1)),
       captured_news = [] \<rparr>"

definition rsi_engine :: "jsnum engine" where
  "rsi_engine = series_engine [Num 50, Num (45678 / 1000)] [] [] []"

section \<open>Properties of translateText\<close>

lemma index0_raises: "isl (index0 x) \<longleftrightarrow> x = JNull"
  by (cases x) auto

lemma map_segments_raises:
  "isl (map_segments segs) \<longleftrightarrow> list_ex (\<lambda>seg. seg = JNull) segs"
  by (induction segs) (auto split: sum.splits simp: index0_raises[symmetric])

lemma extract_translation_raises:
  "isl (extract_translation numstr data) \<longleftrightarrow> extraction_raises data"
  unfolding extract_translation_def extraction_raises_def
  by (simp add: map_segments_raises[symmetric] split: sum.splits option.splits json.splits)

lemma translate_try_raises: "isl (translate_try numstr outcome) \<longleftrightarrow> call_raises outcome"
  unfolding translate_try_def call_raises_def
  by (auto split: fetch_outcome.splits sum.splits simp: extract_translation_raises)

text \<open>
  C5: with English as the target language, \<open>translateText\<close> returns its input unchanged
  and issues no request, whatever the text and the network.
\<close>

theorem translateText_en_identity:
  "translateText numstr net text En = (text, [])"
  by (simp add: translateText_def)

text \<open>
  C6, as stated, fails: a body that parses and whose element 0 is an array of non-null
  segments is not treated as a failure, even when no segment carries a string. For the
  body \<open>[[[null]]]\<close> and the text \<open>hello\<close> the result is the empty string, not the input.
\<close>

theorem translateText_malformed_body_counterexample:
  "\<not> well_formed_translation (JArr [JArr [JArr [JNull]]] :: jsstring json)
   \<and> translateText id
         (constant_net (HttpOk (Inr (JArr [JArr [JArr [JNull]]])) :: (unit, jsstring json) fetch_outcome))
         (js ''hello'') Tr
       = ([], [(Tr, js ''hello'')])
   \<and> js ''hello'' \<noteq> []"
  by (simp add: well_formed_translation_def well_formed_segment_def translateText_def
      translate_try_def extract_translation_def join_element_def js_def constant_net_def)

text \<open>
  C6, amended: whenever the call raises (\<open>fetch\<close> rejects, the response is not ok,
  \<open>response.json()\<close> rejects, the parsed body is \<open>null\<close>, its element 0 is not an
  array, or a segment is \<open>null\<close>), \<open>translateText\<close> returns the original text. It is a
  total function into strings: nothing is raised to the caller.
\<close>

theorem translateText_failure_returns_input:
  assumes "call_raises (net targetLang text)"
  shows "fst (translateText numstr net text targetLang) = text"
  using assms translate_try_raises[of numstr "net targetLang text"]
  by (auto simp: translateText_def split: sum.splits)

theorem translateText_failure_returns_input_witness:
  "call_raises
     (constant_net (HttpError 500 (js ''Internal Server Error'') (Inr ())
        :: (unit, jsstring json) fetch_outcome) Tr (js ''hello''))
   \<and> fst (translateText id
          (constant_net (HttpError 500 (js ''Internal Server Error'') (Inr ())
             :: (unit, jsstring json) fetch_outcome))
          (js ''hello'') Tr) = js ''hello''"
  using translateText_failure_returns_input
    [of "constant_net (HttpError 500 (js ''Internal Server Error'') (Inr ())
           :: (unit, jsstring json) fetch_outcome)" Tr "js ''hello''" id]
  by (simp add: call_raises_def constant_net_def)
section \<open>Properties of stripMarkdown\<close>

lemma match_pair_other_head:
  "\<forall>(m, ms) \<in> set alternatives. m \<noteq> c \<Longrightarrow> match_pair alternatives (c # s) = None"
  by (induction alternatives) auto

lemma replace_pairs_plain:
  assumes "\<forall>(m, ms) \<in> set alternatives. is_marker m" and "marker_free p"
  shows "replace_pairs alternatives (p @ rest) = p @ replace_pairs alternatives rest"
  using assms(2)
proof (induction p)
  case Nil
  then show ?case by simp
next
  case (Cons c p)
  then have c: "\<not> is_marker c" and p: "marker_free p" by (simp_all add: marker_free_def)
  from c assms(1) have "\<forall>(m, ms) \<in> set alternatives. m \<noteq> c" by auto
  then have "match_pair alternatives (c # p @ rest) = None" by (rule match_pair_other_head)
  then show ?case using Cons.IH[OF p] by simp
qed

lemma lazy_body_content:
  assumes "closer = m # ms" and "is_marker m" and "marker_free s" and "single_line s"
  shows "lazy_body closer (s @ closer @ rest) = Some (s, rest)"
  using assms(3,4)
proof (induction s)
  case Nil
  then show ?case using assms(1) by simp
next
  case (Cons c s)
  then have c: "\<not> is_marker c" and s: "marker_free s" and l: "\<not> line_terminator c"
    and sl: "single_line s" by (simp_all add: marker_free_def single_line_def)
  from c assms(1,2) have "take (length closer) (c # s @ closer @ rest) \<noteq> closer" by auto
  then show ?case using Cons.IH[OF s sl] l by simp
qed

lemma markers_differ: "asterisk \<noteq> underscore"
  by (simp add: asterisk_def underscore_def)

lemma bold_markers_markers: "\<forall>(m, ms) \<in> set bold_markers. is_marker m"
  by (simp add: bold_markers_def is_marker_def)

lemma italic_markers_markers: "\<forall>(m, ms) \<in> set italic_markers. is_marker m"
  by (simp add: italic_markers_def is_marker_def)

lemma match_bold_pair:
  assumes "is_marker c" and "marker_free s" and "single_line s"
  shows "match_pair bold_markers ([c, c] @ s @ [c, c] @ rest) = Some (s, rest)"
proof -
  have "lazy_body [c, c] (s @ [c, c] @ rest) = Some (s, rest)"
    using lazy_body_content[OF refl assms] .
  then show ?thesis using assms(1) markers_differ
    by (auto simp: bold_markers_def is_marker_def)
qed

lemma match_italic_pair:
  assumes "is_marker c" and "marker_free s" and "single_line s"
  shows "match_pair italic_markers ([c] @ s @ [c] @ rest) = Some (s, rest)"
proof -
  have "lazy_body [c] (s @ [c] @ rest) = Some (s, rest)"
    using lazy_body_content[OF refl assms] .
  then show ?thesis using assms(1) markers_differ
    by (auto simp: italic_markers_def is_marker_def)
qed

lemma no_bold_at:
  assumes "rest = [] \<or> \<not> is_marker (hd rest)"
  shows "match_pair bold_markers (c # rest) = None"
  using assms by (cases rest) (auto simp: bold_markers_def is_marker_def)

lemma bold_pass_italic:
  assumes "s \<noteq> []" and "marker_free s" and "rest = [] \<or> \<not> is_marker (hd rest)"
  shows "replace_pairs bold_markers ([c] @ s @ [c] @ rest)
           = [c] @ s @ [c] @ replace_pairs bold_markers rest"
proof -
  from assms(1,2) have "\<not> is_marker (hd (s @ [c] @ rest))"
    by (cases s) (simp_all add: marker_free_def)
  then have "match_pair bold_markers (c # s @ [c] @ rest) = None" by (intro no_bold_at) simp
  then have "replace_pairs bold_markers ([c] @ s @ [c] @ rest)
               = c # replace_pairs bold_markers (s @ [c] @ rest)" by simp
  also have "replace_pairs bold_markers (s @ [c] @ rest) = s @ replace_pairs bold_markers ([c] @ rest)"
    using replace_pairs_plain[OF bold_markers_markers assms(2)] by simp
  also have "replace_pairs bold_markers ([c] @ rest) = c # replace_pairs bold_markers rest"
    using no_bold_at[OF assms(3), of c] by simp
  finally show ?thesis by simp
qed

lemma separates_head:
  "separates y \<Longrightarrow> well_formed_span y \<Longrightarrow> \<not> is_marker (hd (concat (map source (y # zs))))"
  by (cases y) (auto simp: marker_free_def neq_Nil_conv)

lemma bold_pass_flat:
  "flat spans \<Longrightarrow>
   replace_pairs bold_markers (concat (map source spans)) = concat (map after_bold spans)"
proof (induction spans rule: flat.induct)
  case 1
  then show ?case by simp
next
  case (2 x)
  show ?case
  proof (cases x)
    case (Plain s)
    with 2 show ?thesis using replace_pairs_plain[OF bold_markers_markers, of s "[]"] by simp
  next
    case (Bold c s)
    with 2 have "match_pair bold_markers ([c, c] @ s @ [c, c] @ []) = Some (s, [])"
      by (intro match_bold_pair) simp_all
    with Bold show ?thesis by simp
  next
    case (Italic c s)
    with 2 show ?thesis using bold_pass_italic[of s "[]" c] by simp
  qed
next
  case (3 x y zs)
  then have wf: "well_formed_span x" and sep: "is_plain x \<or> separates y"
    and fl: "flat (y # zs)" by simp_all
  let ?rest = "concat (map source (y # zs))"
  have IH: "replace_pairs bold_markers ?rest = concat (map after_bold (y # zs))"
    using "3.IH" fl by simp
  show ?case
  proof (cases x)
    case (Plain s)
    with wf show ?thesis
      using replace_pairs_plain[OF bold_markers_markers, of s ?rest] IH by simp
  next
    case (Bold c s)
    with wf have "match_pair bold_markers ([c, c] @ s @ [c, c] @ ?rest) = Some (s, ?rest)"
      by (intro match_bold_pair) simp_all
    with Bold IH show ?thesis by simp
  next
    case (Italic c s)
    with sep have "separates y" by simp
    moreover from fl have "well_formed_span y" by (cases zs) simp_all
    ultimately have "\<not> is_marker (hd ?rest)" by (rule separates_head)
    with Italic wf show ?thesis
      using bold_pass_italic[of s ?rest c] IH by simp
  qed
qed

lemma flat_well_formed: "flat spans \<Longrightarrow> \<forall>x \<in> set spans. well_formed_span x"
  by (induction spans rule: flat.induct) auto

lemma italic_pass_flat:
  "\<forall>x \<in> set spans. well_formed_span x \<Longrightarrow>
   replace_pairs italic_markers (concat (map after_bold spans)) = concat (map shown spans)"
proof (induction spans)
  case Nil
  then show ?case by simp
next
  case (Cons x spans)
  then have wf: "well_formed_span x"
    and IH: "replace_pairs italic_markers (concat (map after_bold spans)) = concat (map shown spans)"
    by simp_all
  let ?rest = "concat (map after_bold spans)"
  show ?case
  proof (cases x)
    case (Plain s)
    with wf show ?thesis
      using replace_pairs_plain[OF italic_markers_markers, of s ?rest] IH by simp
  next
    case (Bold c s)
    with wf show ?thesis
      using replace_pairs_plain[OF italic_markers_markers, of s ?rest] IH by simp
  next
    case (Italic c s)
    with wf have "match_pair italic_markers ([c] @ s @ [c] @ ?rest) = Some (s, ?rest)"
      by (intro match_italic_pair) simp_all
    with Italic IH show ?thesis by simp
  qed
qed

lemma stripMarkdown_flat:
  "flat spans \<Longrightarrow> stripMarkdown (concat (map source spans)) = concat (map shown spans)"
  using bold_pass_flat[of spans] italic_pass_flat[OF flat_well_formed, of spans]
  by (simp add: stripMarkdown_def)

lemma well_formed_shown: "well_formed_span x \<Longrightarrow> marker_free (shown x)"
  by (cases x) simp_all

lemma shown_marker_free: "flat spans \<Longrightarrow> marker_free (concat (map shown spans))"
proof -
  assume "flat spans"
  then have "\<forall>x \<in> set spans. well_formed_span x" by (rule flat_well_formed)
  then have "\<forall>x \<in> set spans. marker_free (shown x)" using well_formed_shown by blast
  then show ?thesis by (induction spans) (auto simp: marker_free_def)
qed

lemma marker_free_take: "marker_free s \<Longrightarrow> marker_free (take n s)"
  by (auto simp: marker_free_def list_ex_iff dest: in_set_takeD)

section \<open>Properties of the typewriter\<close>

lemma stripMarkdown_Nil: "stripMarkdown [] = []"
  by (simp add: stripMarkdown_def)

lemma invariant_init: "typewriter_invariant initial_ui"
  by (simp add: typewriter_invariant_def initial_ui_def)

lemma invariant_set: "typewriter_invariant st \<Longrightarrow> typewriter_invariant (setTranslatedAiSummary t st)"
  by (auto simp: typewriter_invariant_def setTranslatedAiSummary_def split: option.splits prod.splits)

lemma invariant_tick: "typewriter_invariant st \<Longrightarrow> typewriter_invariant (tick i st)"
  unfolding typewriter_invariant_def tick_def clearInterval_def
  by (auto split: option.splits if_splits prod.splits)

lemma invariant_typewriter_effect:
  "typewriter_invariant st \<Longrightarrow>
   (let st' = typewriter_effect st st in
      typewriterDeps st' = Some (translatedAiSummary st) \<and>
      visibleCharacters st' = 0 \<and>
      displayDeps st' = displayDeps st \<and>
      translatedAiSummary st' = translatedAiSummary st \<and>
      (if translatedAiSummary st = [] then
         displayedAiSummary st' = [] \<and> typewriterCleanup st' = None \<and> intervals st' = []
         \<and> nextIntervalId st' = nextIntervalId st
       else displayedAiSummary st' = displayedAiSummary st \<and>
            typewriterCleanup st' = Some (nextIntervalId st) \<and>
            nextIntervalId st' = Suc (nextIntervalId st) \<and>
            intervals st' = [(nextIntervalId st, stripMarkdown (translatedAiSummary st))]))"
  unfolding typewriter_invariant_def typewriter_effect_def clearInterval_def Let_def
  by (auto split: option.splits if_splits prod.splits)

lemma invariant_render: "typewriter_invariant st \<Longrightarrow> typewriter_invariant (render_pass st)"
proof -
  assume inv: "typewriter_invariant st"
  show ?thesis
  proof (cases "typewriterDeps st \<noteq> Some (translatedAiSummary st)")
    case True
    from invariant_typewriter_effect[OF inv] True inv show ?thesis
      unfolding render_pass_def Let_def typewriter_invariant_def display_effect_def
      by (auto split: option.splits if_splits prod.splits simp: stripMarkdown_Nil)
  next
    case False
    with inv show ?thesis
      unfolding render_pass_def Let_def typewriter_invariant_def display_effect_def
      by (auto split: option.splits if_splits prod.splits simp: stripMarkdown_Nil)
  qed
qed

lemma reachable_invariant: "reachable st \<Longrightarrow> typewriter_invariant st"
  by (induction rule: reachable.induct)
     (simp_all add: invariant_init invariant_set invariant_tick invariant_render)

lemma tick_monotone: "visibleCharacters st \<le> visibleCharacters (tick i st)"
  by (simp add: tick_def clearInterval_def split: option.splits)

lemma tick_not_running: "i \<notin> set (running st) \<Longrightarrow> tick i st = st"
proof -
  assume "i \<notin> set (running st)"
  then have "map_of (intervals st) i = None"
    by (simp add: running_def map_of_eq_None_iff)
  then show ?thesis by (simp add: tick_def)
qed

lemma tick_at_full_length:
  "map_of (intervals st) i = Some plain \<Longrightarrow> visibleCharacters st = length plain \<Longrightarrow>
   tick i st = clearInterval i st"
  by (simp add: tick_def)

lemma clearInterval_not_running: "i \<notin> set (running (clearInterval i st))"
  by (auto simp: clearInterval_def running_def)

lemma clearInterval_visible: "visibleCharacters (clearInterval i st) = visibleCharacters st"
  by (simp add: clearInterval_def)

lemma tick_typewriterDeps: "typewriterDeps (tick i st) = typewriterDeps st"
  by (simp add: tick_def clearInterval_def split: option.splits)

lemma bound_of_invariant:
  "typewriter_invariant st \<Longrightarrow> typewriterDeps st = Some x \<Longrightarrow>
   visibleCharacters st \<le> length (stripMarkdown x)"
  by (simp add: typewriter_invariant_def)

lemma restart_of_invariant:
  assumes inv: "typewriter_invariant st"
    and changed: "typewriterDeps st \<noteq> Some (translatedAiSummary st)"
  shows "visibleCharacters (render_pass st) = 0"
    and "j \<in> set (running st) \<Longrightarrow> j \<notin> set (running (render_pass st))"
proof -
  have rp: "render_pass st =
      (if displayDeps st \<noteq> Some (visibleCharacters st, translatedAiSummary st)
       then display_effect st (typewriter_effect st st) else typewriter_effect st st)"
    using changed by (simp add: render_pass_def Let_def)
  from invariant_typewriter_effect[OF inv]
  show "visibleCharacters (render_pass st) = 0"
    by (simp add: rp display_effect_def Let_def)
  assume j: "j \<in> set (running st)"
  from inv j have "j < nextIntervalId st"
    by (auto simp: typewriter_invariant_def running_def split: option.splits)
  with invariant_typewriter_effect[OF inv]
  show "j \<notin> set (running (render_pass st))"
    by (auto simp: rp display_effect_def Let_def running_def split: if_splits)
qed

lemma typewriter_effect_fields:
  "translatedAiSummary (typewriter_effect r st) = translatedAiSummary st"
  "typewriterDeps (typewriter_effect r st) = Some (translatedAiSummary r)"
  "displayDeps (typewriter_effect r st) = displayDeps st"
  "visibleCharacters (typewriter_effect r st) = 0"
  by (cases "typewriterCleanup st"; simp add: typewriter_effect_def clearInterval_def Let_def)+

lemma display_effect_fields:
  "translatedAiSummary (display_effect r st) = translatedAiSummary st"
  "typewriterDeps (display_effect r st) = typewriterDeps st"
  "displayDeps (display_effect r st) = Some (visibleCharacters r, translatedAiSummary r)"
  "visibleCharacters (display_effect r st) = visibleCharacters st"
  by (simp_all add: display_effect_def Let_def)

lemma render_pass_fields:
  "translatedAiSummary (render_pass st) = translatedAiSummary st"
  "typewriterDeps (render_pass st) = Some (translatedAiSummary st)"
  "displayDeps (render_pass st) = Some (visibleCharacters st, translatedAiSummary st)"
  "visibleCharacters (render_pass st) =
     (if typewriterDeps st \<noteq> Some (translatedAiSummary st) then 0 else visibleCharacters st)"
  by (simp_all add: render_pass_def Let_def typewriter_effect_fields display_effect_fields)

lemma render_twice_settled: "settled (render_pass (render_pass st))"
  by (simp add: settled_def render_pass_fields)

lemma reachable_ticks: "reachable st \<Longrightarrow> reachable (ticks i n st)"
  by (induction n arbitrary: st) (simp_all add: reachable.timer reachable.render)

lemma reachable_reveal: "reachable (reveal t n)"
  unfolding reveal_def
  by (intro reachable_ticks reachable.render reachable.set_summary reachable.init)

lemmas ui_eval =
  reveal_def initial_ui_def render_pass_def typewriter_effect_def display_effect_def tick_def
  clearInterval_def setTranslatedAiSummary_def stripMarkdown_def bold_markers_def
  italic_markers_def js_def asterisk_def
  underscore_def line_terminator_def Let_def settled_def running_def

text \<open>
  C9: in every reachable state, a timer firing never lowers the reveal count and leaves it
  within the length of the stripped text of the run in progress; when the translated
  summary differs from the one the typewriter effect last ran with, the next render puts
  the count back to 0 and none of the timers that were running runs any more; a timer
  that fires at full length is cleared and leaves the count as it is; and a timer that
  is not running changes nothing.
\<close>

theorem typewriter_counter:
  assumes "reachable st"
  shows "visibleCharacters st \<le> visibleCharacters (tick i st)
     \<and> (\<forall>x. typewriterDeps st = Some x \<longrightarrow>
            visibleCharacters st \<le> length (stripMarkdown x) \<and>
            visibleCharacters (tick i st) \<le> length (stripMarkdown x))
     \<and> (typewriterDeps st \<noteq> Some (translatedAiSummary st) \<longrightarrow>
            visibleCharacters (render_pass st) = 0 \<and>
            (\<forall>j \<in> set (running st). j \<notin> set (running (render_pass st))))
     \<and> (\<forall>plain. map_of (intervals st) i = Some plain \<and> visibleCharacters st = length plain \<longrightarrow>
            visibleCharacters (tick i st) = visibleCharacters st \<and>
            i \<notin> set (running (tick i st)))
     \<and> (i \<notin> set (running st) \<longrightarrow> tick i st = st)"
proof -
  from assms have inv: "typewriter_invariant st" by (rule reachable_invariant)
  have inv': "typewriter_invariant (tick i st)" using inv by (rule invariant_tick)
  have a: "visibleCharacters st \<le> visibleCharacters (tick i st)" by (rule tick_monotone)
  have b: "\<forall>x. typewriterDeps st = Some x \<longrightarrow>
            visibleCharacters st \<le> length (stripMarkdown x) \<and>
            visibleCharacters (tick i st) \<le> length (stripMarkdown x)"
    using bound_of_invariant[OF inv'] bound_of_invariant[OF inv]
    by (simp add: tick_typewriterDeps)
  have c: "typewriterDeps st \<noteq> Some (translatedAiSummary st) \<longrightarrow>
            visibleCharacters (render_pass st) = 0 \<and>
            (\<forall>j \<in> set (running st). j \<notin> set (running (render_pass st)))"
    using restart_of_invariant[OF inv] by blast
  have d: "\<forall>plain. map_of (intervals st) i = Some plain \<and> visibleCharacters st = length plain \<longrightarrow>
            visibleCharacters (tick i st) = visibleCharacters st \<and>
            i \<notin> set (running (tick i st))"
    by (auto simp: tick_at_full_length clearInterval_visible clearInterval_not_running)
  have e: "i \<notin> set (running st) \<longrightarrow> tick i st = st"
    by (simp add: tick_not_running)
  from a b c d e show ?thesis by blast
qed

theorem typewriter_counter_witness:
  "reachable (reveal (js ''ab'') (Suc 0))
   \<and> visibleCharacters (reveal (js ''ab'') (Suc 0)) \<le> visibleCharacters (tick 1 (reveal (js ''ab'') (Suc 0)))
   \<and> typewriterDeps (reveal (js ''ab'') (Suc 0)) = Some (js ''ab'')
   \<and> visibleCharacters (tick 1 (reveal (js ''ab'') (Suc 0))) \<le> length (stripMarkdown (js ''ab''))
   \<and> typewriterDeps (setTranslatedAiSummary (js ''xy'') (reveal (js ''ab'') (Suc 0)))
       \<noteq> Some (translatedAiSummary (setTranslatedAiSummary (js ''xy'') (reveal (js ''ab'') (Suc 0))))
   \<and> running (setTranslatedAiSummary (js ''xy'') (reveal (js ''ab'') (Suc 0))) = [1]
   \<and> visibleCharacters
         (render_pass (setTranslatedAiSummary (js ''xy'') (reveal (js ''ab'') (Suc 0)))) = 0
   \<and> 1 \<notin> set (running
         (render_pass (setTranslatedAiSummary (js ''xy'') (reveal (js ''ab'') (Suc 0)))))
   \<and> map_of (intervals (reveal (js ''ab'') (Suc (Suc 0)))) 1 = Some (js ''ab'')
   \<and> visibleCharacters (reveal (js ''ab'') (Suc (Suc 0))) = length (js ''ab'')
   \<and> visibleCharacters (tick 1 (reveal (js ''ab'') (Suc (Suc 0))))
       = visibleCharacters (reveal (js ''ab'') (Suc (Suc 0)))
   \<and> 1 \<notin> set (running (tick 1 (reveal (js ''ab'') (Suc (Suc 0)))))
   \<and> tick 1 (tick 1 (reveal (js ''ab'') (Suc (Suc 0)))) = tick 1 (reveal (js ''ab'') (Suc (Suc 0)))"
proof -
  let ?s1 = "reveal (js ''ab'') (Suc 0)"
  let ?s2 = "setTranslatedAiSummary (js ''xy'') ?s1"
  let ?s3 = "reveal (js ''ab'') (Suc (Suc 0))"
  let ?s4 = "tick 1 ?s3"
  have r1: "reachable ?s1" by (rule reachable_reveal)
  have r2: "reachable ?s2" by (intro reachable.set_summary reachable_reveal)
  have r3: "reachable ?s3" by (rule reachable_reveal)
  have r4: "reachable ?s4" by (intro reachable.timer reachable_reveal)
  have d1: "typewriterDeps ?s1 = Some (js ''ab'')" by (simp add: ui_eval)
  have d2: "typewriterDeps ?s2 \<noteq> Some (translatedAiSummary ?s2)" by (simp add: ui_eval)
  have d2': "running ?s2 = [1]" by (simp add: ui_eval)
  have d3: "map_of (intervals ?s3) 1 = Some (js ''ab'')" by (simp add: ui_eval)
  have d3': "visibleCharacters ?s3 = length (js ''ab'')" by (simp add: ui_eval)
  have d4: "1 \<notin> set (running ?s4)" by (simp add: ui_eval)
  from typewriter_counter[OF r1, of 1] d1
  have c1: "visibleCharacters ?s1 \<le> visibleCharacters (tick 1 ?s1)"
    and c2: "visibleCharacters (tick 1 ?s1) \<le> length (stripMarkdown (js ''ab''))"
    by blast+
  from typewriter_counter[OF r2, of 1] d2 d2'
  have c3: "visibleCharacters (render_pass ?s2) = 0"
    and c4: "1 \<notin> set (running (render_pass ?s2))"
    by simp_all
  from typewriter_counter[OF r3, of 1] d3 d3'
  have c5: "visibleCharacters (tick 1 ?s3) = visibleCharacters ?s3"
    and c6: "1 \<notin> set (running (tick 1 ?s3))"
    by blast+
  from typewriter_counter[OF r4, of 1] d4
  have c7: "tick 1 ?s4 = ?s4" by blast
  from r1 c1 d1 c2 d2 d2' c3 c4 d3 d3' c5 c6 c7 show ?thesis by blast
qed

text \<open>
  C10, as stated, fails twice. The translated summary \<open>*_a_*\<close> is stripped to \<open>_a_\<close>:
  the second pass removes the outer pair and goes on after it, so with three characters
  revealed the user sees an underscore pair. And the displayed string is set by an
  effect: on the render after that summary is replaced by \<open>Hold\<close>, the count is 0 while
  the displayed string is \<open>Hol\<close>, the new text cut at the old count.
\<close>

theorem displayed_summary_counterexample:
  "reachable (reveal (js ''*_a_*'') (Suc (Suc (Suc 0))))
   \<and> settled (reveal (js ''*_a_*'') (Suc (Suc (Suc 0))))
   \<and> displayedAiSummary (reveal (js ''*_a_*'') (Suc (Suc (Suc 0)))) = js ''_a_''
   \<and> has_pair italic_markers (js ''_a_'')
   \<and> reachable
        (render_pass (setTranslatedAiSummary (js ''Hold'') (reveal (js ''*_a_*'') (Suc (Suc (Suc 0))))))
   \<and> visibleCharacters
        (render_pass (setTranslatedAiSummary (js ''Hold'') (reveal (js ''*_a_*'') (Suc (Suc (Suc 0))))))
       = 0
   \<and> displayedAiSummary
        (render_pass (setTranslatedAiSummary (js ''Hold'') (reveal (js ''*_a_*'') (Suc (Suc (Suc 0))))))
       = js ''Hol''"
proof -
  have "reachable (reveal (js ''*_a_*'') (Suc (Suc (Suc 0))))" by (rule reachable_reveal)
  moreover have "reachable
        (render_pass (setTranslatedAiSummary (js ''Hold'') (reveal (js ''*_a_*'') (Suc (Suc (Suc 0))))))"
    by (intro reachable.render reachable.set_summary reachable_reveal)
  ultimately show ?thesis by (simp add: ui_eval)
qed

text \<open>
  C10, amended: in every reachable state in which both effects have run on the current
  values, the displayed string is the stripped translated summary cut at the reveal
  count, hence a prefix of the stripped summary; it is empty when the translated summary
  is empty; and when the markup of the translated summary is not nested (\<open>flat\<close>), the
  displayed string is a prefix of the contents of the spans and holds no marker
  character.
\<close>

theorem displayed_summary_when_settled:
  assumes "reachable st" and "settled st"
  shows "displayedAiSummary st =
           take (visibleCharacters st) (stripMarkdown (translatedAiSummary st))
       \<and> take (length (displayedAiSummary st)) (stripMarkdown (translatedAiSummary st))
           = displayedAiSummary st
       \<and> (translatedAiSummary st = [] \<longrightarrow> displayedAiSummary st = [])
       \<and> (flat spans \<and> translatedAiSummary st = concat (map source spans) \<longrightarrow>
            displayedAiSummary st = take (visibleCharacters st) (concat (map shown spans)) \<and>
            marker_free (displayedAiSummary st))"
proof -
  from assms(1) have inv: "typewriter_invariant st" by (rule reachable_invariant)
  have eq: "displayedAiSummary st =
           take (visibleCharacters st) (stripMarkdown (translatedAiSummary st))"
    using inv assms(2)
    by (cases "translatedAiSummary st = []")
       (auto simp: typewriter_invariant_def settled_def stripMarkdown_Nil)
  have "take (length (displayedAiSummary st)) (stripMarkdown (translatedAiSummary st))
           = displayedAiSummary st"
    by (subst (1 2) eq) (simp add: min_def)
  moreover have "translatedAiSummary st = [] \<longrightarrow> displayedAiSummary st = []"
    using eq by (simp add: stripMarkdown_Nil)
  moreover have "flat spans \<and> translatedAiSummary st = concat (map source spans) \<longrightarrow>
            displayedAiSummary st = take (visibleCharacters st) (concat (map shown spans)) \<and>
            marker_free (displayedAiSummary st)"
    using eq stripMarkdown_flat[of spans] shown_marker_free[of spans] marker_free_take
    by auto
  ultimately show ?thesis using eq by blast
qed

theorem displayed_summary_when_settled_witness:
  "reachable (reveal (js ''**Buy** now'') (Suc (Suc 0)))
   \<and> settled (reveal (js ''**Buy** now'') (Suc (Suc 0)))
   \<and> flat [Bold asterisk (js ''Buy''), Plain (js '' now'')]
   \<and> translatedAiSummary (reveal (js ''**Buy** now'') (Suc (Suc 0)))
       = concat (map source [Bold asterisk (js ''Buy''), Plain (js '' now'')])
   \<and> displayedAiSummary (reveal (js ''**Buy** now'') (Suc (Suc 0))) = js ''Bu''
   \<and> marker_free (displayedAiSummary (reveal (js ''**Buy** now'') (Suc (Suc 0))))"
proof -
  let ?st = "reveal (js ''**Buy** now'') (Suc (Suc 0))"
  let ?spans = "[Bold asterisk (js ''Buy''), Plain (js '' now'')]"
  have r: "reachable ?st" by (rule reachable_reveal)
  have s: "settled ?st" by (simp add: ui_eval)
  have f: "flat ?spans"
    by (simp add: is_marker_def marker_free_def single_line_def line_terminator_def js_def
        asterisk_def underscore_def)
  have t: "translatedAiSummary ?st = concat (map source ?spans)"
    by (simp add: ui_eval)
  have v: "take (visibleCharacters ?st) (concat (map shown ?spans)) = js ''Bu''"
    by (simp add: ui_eval)
  from displayed_summary_when_settled[OF r s, of ?spans]
  have "flat ?spans \<and> translatedAiSummary ?st = concat (map source ?spans) \<longrightarrow>
          displayedAiSummary ?st = take (visibleCharacters ?st) (concat (map shown ?spans)) \<and>
          marker_free (displayedAiSummary ?st)"
    by blast
  with f t have d: "displayedAiSummary ?st = take (visibleCharacters ?st) (concat (map shown ?spans))"
    and m: "marker_free (displayedAiSummary ?st)"
    by blast+
  from d v have "displayedAiSummary ?st = js ''Bu''" by (rule trans)
  with r s f t m show ?thesis by blast
qed

section \<open>Properties of fetchCoins\<close>

lemma insert_sorted_mset: "mset (insert_sorted comparefn x ys) = add_mset x (mset ys)"
  by (induction ys) simp_all

lemma foldl_insert_sorted_mset:
  "mset (foldl (\<lambda>sorted x. insert_sorted comparefn x sorted) acc xs) = mset acc + mset xs"
  by (induction xs arbitrary: acc) (simp_all add: insert_sorted_mset)

lemma js_sort_mset: "mset (js_sort comparefn xs) = mset xs"
  by (simp add: js_sort_def foldl_insert_sorted_mset)

lemma negative_by_rank:
  "cmcRank a = Some x \<Longrightarrow> cmcRank b = Some y \<Longrightarrow> negative (by_rank a b) \<longleftrightarrow> x < y"
  by (simp add: negative_def by_rank_def difference_def)

lemma insert_sorted_ranked:
  assumes "cmcRank x = Some r" and "map cmcRank ys = map Some rs" and "sorted rs"
  shows "\<exists>rs'. map cmcRank (insert_sorted by_rank x ys) = map Some rs' \<and> sorted rs'
               \<and> mset rs' = add_mset r (mset rs)"
  using assms(2,3)
proof (induction ys arbitrary: rs)
  case Nil
  then show ?case using assms(1) by (intro exI[of _ "[r]"]) simp
next
  case (Cons y ys)
  then obtain q qs where rs: "rs = q # qs" and y: "cmcRank y = Some q"
    and ys: "map cmcRank ys = map Some qs" by (cases rs) auto
  from Cons.prems(2) rs have sq: "sorted qs" and le: "\<forall>z \<in> set qs. q \<le> z" by auto
  show ?case
  proof (cases "r < q")
    case True
    then have "insert_sorted by_rank x (y # ys) = x # y # ys"
      using negative_by_rank[OF assms(1) y] by simp
    moreover have "sorted (r # q # qs)" using True sq le by auto
    ultimately show ?thesis using assms(1) y ys rs
      by (intro exI[of _ "r # q # qs"]) simp
  next
    case False
    then have ins: "insert_sorted by_rank x (y # ys) = y # insert_sorted by_rank x ys"
      using negative_by_rank[OF assms(1) y] by simp
    from Cons.IH[OF ys sq] obtain qs' where
      m: "map cmcRank (insert_sorted by_rank x ys) = map Some qs'" and s: "sorted qs'"
      and ms: "mset qs' = add_mset r (mset qs)" by blast
    from ms have "set qs' = insert r (set qs)" by (metis set_mset_add_mset_insert set_mset_mset)
    with le False have "\<forall>z \<in> set qs'. q \<le> z" by auto
    with s have "sorted (q # qs')" by simp
    then show ?thesis using ins y m ms rs
      by (intro exI[of _ "q # qs'"]) simp
  qed
qed

lemma foldl_insert_sorted_ranked:
  assumes "map cmcRank xs = map Some rs" and "map cmcRank acc = map Some qs" and "sorted qs"
  shows "map cmcRank (foldl (\<lambda>sorted x. insert_sorted by_rank x sorted) acc xs)
           = map Some (sort (qs @ rs))"
  using assms
proof (induction xs arbitrary: rs acc qs)
  case Nil
  then show ?case by (simp add: sorted_sort_id)
next
  case (Cons x xs)
  then obtain r rs' where rs: "rs = r # rs'" and x: "cmcRank x = Some r"
    and xs: "map cmcRank xs = map Some rs'" by (cases rs) auto
  from insert_sorted_ranked[OF x Cons.prems(2,3)] obtain qs' where
    m: "map cmcRank (insert_sorted by_rank x acc) = map Some qs'" and s: "sorted qs'"
    and ms: "mset qs' = add_mset r (mset qs)" by blast
  have "mset (qs' @ rs') = mset (qs @ rs)" using ms rs by simp
  then have "sort (qs' @ rs') = sort (qs @ rs)"
    by (metis properties_for_sort sorted_sort mset_sort)
  with Cons.IH[OF xs m s] show ?case by simp
qed

lemma js_sort_ranked:
  "map cmcRank xs = map Some rs \<Longrightarrow> map cmcRank (js_sort by_rank xs) = map Some (sort rs)"
  using foldl_insert_sorted_ranked[of xs rs "[]" "[]"] by (simp add: js_sort_def)

lemma to_CoinData_ranks:
  assumes "map listing_cmcRank json = map Some ranks" and "0 \<notin> set ranks"
  shows "map cmcRank (map to_CoinData json) = map Some ranks"
  using assms
proof (induction json arbitrary: ranks)
  case Nil
  then show ?case by simp
next
  case (Cons c json)
  then show ?case by (cases ranks) (auto simp: to_CoinData_def or_na_def)
qed

text \<open>
  C8, as stated, fails: a coin whose rank is 0 or absent is stored with the rank
  \<open>'N/A'\<close>, every comparison with it gives \<open>NaN\<close>, and the stable sort leaves it
  where it was. For the list ETH (rank 2), BTC (rank 0) the stored order is ETH, BTC and
  ETH is selected, though the rank of BTC is the lowest; for the list DOGE (no rank),
  BTC (rank 1) the stored order is DOGE, BTC and DOGE is selected.
\<close>

theorem fetchCoins_unranked_counterexample:
  "map symbol (coins (fetchCoins
      (HttpOk (Inr [listing_of ''ETH'' (Some 2), listing_of ''BTC'' (Some 0)])) (initial_app :: rat app)))
     = [js ''ETH'', js ''BTC'']
   \<and> map cmcRank (coins (fetchCoins
      (HttpOk (Inr [listing_of ''ETH'' (Some 2), listing_of ''BTC'' (Some 0)])) (initial_app :: rat app)))
     = [Some 2, None]
   \<and> selected (fetchCoins
      (HttpOk (Inr [listing_of ''ETH'' (Some 2), listing_of ''BTC'' (Some 0)])) (initial_app :: rat app))
     = js ''ETH''
   \<and> map symbol (coins (fetchCoins
      (HttpOk (Inr [listing_of ''DOGE'' None, listing_of ''BTC'' (Some 1)])) (initial_app :: rat app)))
     = [js ''DOGE'', js ''BTC'']
   \<and> selected (fetchCoins
      (HttpOk (Inr [listing_of ''DOGE'' None, listing_of ''BTC'' (Some 1)])) (initial_app :: rat app))
     = js ''DOGE''"
  by (simp add: fetchCoins_def js_sort_def by_rank_def difference_def negative_def to_CoinData_def
      listing_of_def or_na_def initial_app_def Let_def)

text \<open>
  C8, amended: when every coin of a successfully fetched list carries a rank other than
  0, the stored ranks are the fetched ranks in ascending order, the stored list holds
  exactly the fetched coins, and the symbol of its first coin (lowest rank) is selected;
  for an empty list the selection is left as it was.
\<close>

theorem fetchCoins_sorted_by_rank:
  assumes "map listing_cmcRank json = map Some ranks" and "0 \<notin> set ranks"
  shows "map cmcRank (coins (fetchCoins (HttpOk (Inr json)) st)) = map Some (sort ranks)
       \<and> mset (coins (fetchCoins (HttpOk (Inr json)) st)) = mset (map to_CoinData json)
       \<and> selected (fetchCoins (HttpOk (Inr json)) st) =
           (case coins (fetchCoins (HttpOk (Inr json)) st) of
              [] \<Rightarrow> selected st | c # cs \<Rightarrow> symbol c)"
  using js_sort_ranked[OF to_CoinData_ranks[OF assms]]
  by (simp add: fetchCoins_def Let_def js_sort_mset)

theorem fetchCoins_sorted_by_rank_witness:
  "map listing_cmcRank
      [listing_of ''C'' (Some 3), listing_of ''A'' (Some 1), listing_of ''E'' (Some 5),
       listing_of ''B'' (Some 2), listing_of ''D'' (Some 4)]
     = map Some [3, 1, 5, 2, 4]
   \<and> (0 :: rat) \<notin> set [3, 1, 5, 2, 4]
   \<and> map cmcRank (coins (fetchCoins (HttpOk (Inr
        [listing_of ''C'' (Some 3), listing_of ''A'' (Some 1), listing_of ''E'' (Some 5),
         listing_of ''B'' (Some 2), listing_of ''D'' (Some 4)])) (initial_app :: rat app)))
     = map Some [1, 2, 3, 4, 5]
   \<and> selected (fetchCoins (HttpOk (Inr
        [listing_of ''C'' (Some 3), listing_of ''A'' (Some 1), listing_of ''E'' (Some 5),
         listing_of ''B'' (Some 2), listing_of ''D'' (Some 4)])) (initial_app :: rat app))
     = js ''A''"
proof -
  let ?json = "[listing_of ''C'' (Some 3), listing_of ''A'' (Some 1), listing_of ''E'' (Some 5),
       listing_of ''B'' (Some 2), listing_of ''D'' (Some 4)]"
  have h1: "map listing_cmcRank ?json = map Some [3, 1, 5, 2, 4]"
    by (simp add: listing_of_def)
  have h2: "(0 :: rat) \<notin> set [3, 1, 5, 2, 4]" by simp
  have s: "sort [3, 1, 5, 2, 4 :: rat] = [1, 2, 3, 4, 5]" by simp
  from fetchCoins_sorted_by_rank[OF h1 h2, of "initial_app :: rat app"]
  have r: "map cmcRank (coins (fetchCoins (HttpOk (Inr ?json)) (initial_app :: rat app)))
             = map Some [1, 2, 3, 4, 5]"
    and sel: "selected (fetchCoins (HttpOk (Inr ?json)) (initial_app :: rat app)) =
           (case coins (fetchCoins (HttpOk (Inr ?json)) (initial_app :: rat app)) of
              [] \<Rightarrow> selected (initial_app :: rat app) | c # cs \<Rightarrow> symbol c)"
    by (simp_all only: s)
  have "selected (fetchCoins (HttpOk (Inr ?json)) (initial_app :: rat app)) = js ''A''"
    by (simp add: fetchCoins_def js_sort_def by_rank_def difference_def negative_def
        to_CoinData_def listing_of_def or_na_def Let_def)
  with h1 h2 r show ?thesis by blast
qed

section \<open>Properties of the detail cycle\<close>

lemmas cycle_eval =
  fetchChartAndIndicatorsData_def start_cycle_def on_ohlcv_def on_analysis_def on_news_def
  catch_block_def finally_block_def no_data_def news_failed_def Let_def fetch_json_def
  fetch_ohlcv_def fetch_analysis_def fetch_news_def or_else_def or_zero_def or_na_def
  decimal.simps js_def quotes_page_def fetchCoins_def js_sort_def by_rank_def difference_def
  negative_def to_CoinData_def listing_of_def initial_app_def one_candle_def two_items_def
  boom_def constant_network_def currentIndicators_def currentRsi_def currentMacd_def
  currentSma_def last_or_na_def rounded_def series_engine_def short_history_engine_def
  analysis_request_def by_datetime_def chart_region_def indicator_table_def indicator_cell_def
  closePrices_of_def after_btc_cycle_def eth_selected_def

lemma quotes_page_coin:
  "find (\<lambda>c. symbol c = selected quotes_page) (coins quotes_page)
     = Some (to_CoinData (listing_of ''BTC'' (Some 1)))"
  by (simp add: cycle_eval)

lemma eth_selected_coin:
  "find (\<lambda>c. symbol c = selected eth_selected) (coins eth_selected)
     = Some (to_CoinData (listing_of ''ETH'' (Some 2)))"
  by (simp add: cycle_eval)

text \<open>
  C7: when a coin has the selected symbol and the OHLCV response is ok with \<open>values\<close>
  absent or empty, the cycle ends with the chart data cleared, the indicators emptied
  (every cell of the table shows \<open>N/A\<close>), the summary \<open>No data to analyze.\<close>, the news
  list empty and no news error; the only request issued is the OHLCV one. The \<open>catch\<close>
  block is not entered: the chart error is the fixed text of the \<open>else\<close> branch, which
  the page shows where the chart was.
\<close>

theorem no_ohlcv_values_is_no_data:
  assumes "find (\<lambda>c. symbol c = selected st) (coins st) = Some coin"
    and "fetch_ohlcv (ohlcv_endpoint net (selected st)) = Inr vs"
    and "vs = None \<or> vs = Some []"
  shows "chartData (fst (fetchChartAndIndicatorsData eng net st)) = None
     \<and> indicators (fst (fetchChartAndIndicatorsData eng net st)) = None
     \<and> indicator_table eng (indicators (fst (fetchChartAndIndicatorsData eng net st)))
         = replicate 6 (js ''N/A'')
     \<and> aiSummary (fst (fetchChartAndIndicatorsData eng net st)) = js ''No data to analyze.''
     \<and> news (fst (fetchChartAndIndicatorsData eng net st)) = []
     \<and> newsError (fst (fetchChartAndIndicatorsData eng net st)) = None
     \<and> chartError (fst (fetchChartAndIndicatorsData eng net st))
         = Some (js ''No OHLCV data found for this coin from Twelve Data.'')
     \<and> chart_region (fst (fetchChartAndIndicatorsData eng net st))
         = ChartErrorShown (js ''No OHLCV data found for this coin from Twelve Data.'')
     \<and> chartLoading (fst (fetchChartAndIndicatorsData eng net st)) = False
     \<and> newsLoading (fst (fetchChartAndIndicatorsData eng net st)) = False
     \<and> snd (fetchChartAndIndicatorsData eng net st) = [OhlcvRequest (selected st)]"
proof -
  have "fetchChartAndIndicatorsData eng net st =
          (finally_block (no_data (st\<lparr>chartLoading := True, chartError := None,
              newsLoading := True, newsError := None\<rparr>)), [OhlcvRequest (selected st)])"
    using assms by (auto simp: fetchChartAndIndicatorsData_def start_cycle_def on_ohlcv_def Let_def)
  then show ?thesis
    by (simp add: finally_block_def no_data_def indicator_table_def eval_nat_numeral
        chart_region_def js_def)
qed

theorem no_ohlcv_values_is_no_data_witness:
  "find (\<lambda>c. symbol c = selected quotes_page) (coins quotes_page)
     = Some (to_CoinData (listing_of ''BTC'' (Some 1)))
   \<and> fetch_ohlcv (ohlcv_endpoint
         (constant_network (HttpOk (Inr (Some []))) (HttpOk (Inr (js ''BTC: buy.'')))
            (HttpOk (Inr two_items))) (selected quotes_page)) = Inr (Some [])
   \<and> aiSummary (fst (fetchChartAndIndicatorsData short_history_engine
         (constant_network (HttpOk (Inr (Some []))) (HttpOk (Inr (js ''BTC: buy.'')))
            (HttpOk (Inr two_items))) quotes_page)) = js ''No data to analyze.''
   \<and> news (fst (fetchChartAndIndicatorsData short_history_engine
         (constant_network (HttpOk (Inr (Some []))) (HttpOk (Inr (js ''BTC: buy.'')))
            (HttpOk (Inr two_items))) quotes_page)) = []
   \<and> snd (fetchChartAndIndicatorsData short_history_engine
         (constant_network (HttpOk (Inr (Some []))) (HttpOk (Inr (js ''BTC: buy.'')))
            (HttpOk (Inr two_items))) quotes_page) = [OhlcvRequest (js ''BTC'')]"
proof -
  let ?net = "constant_network (HttpOk (Inr (Some []))) (HttpOk (Inr (js ''BTC: buy.'')))
            (HttpOk (Inr two_items))"
  have h: "fetch_ohlcv (ohlcv_endpoint ?net (selected quotes_page)) = Inr (Some [])"
    by (simp add: constant_network_def fetch_ohlcv_def fetch_json_def)
  have s: "selected quotes_page = js ''BTC''" by (simp add: cycle_eval)
  from no_ohlcv_values_is_no_data[OF quotes_page_coin h, of short_history_engine]
  have "aiSummary (fst (fetchChartAndIndicatorsData short_history_engine ?net quotes_page))
          = js ''No data to analyze.''"
    and "news (fst (fetchChartAndIndicatorsData short_history_engine ?net quotes_page)) = []"
    and "snd (fetchChartAndIndicatorsData short_history_engine ?net quotes_page)
          = [OhlcvRequest (js ''BTC'')]"
    by (simp_all add: s)
  with quotes_page_coin h show ?thesis by blast
qed

text \<open>
  C3, as stated, fails: the \<open>catch\<close> block does not reset the chart data, and the summary
  it stores is the error text, not the \<open>No data to analyze.\<close> of the empty response.
  After a successful cycle for BTC the user selects ETH and the OHLCV request answers 500:
  the state still holds the chart data of BTC.
\<close>

theorem ohlcv_failure_counterexample:
  "fetch_ohlcv (HttpError 500 (js ''Internal Server Error'') (Inr boom))
     = Inl (js ''Twelve Data OHLCV API Error: 500 - boom'')
   \<and> map_option dataset_label (chartData (fst (fetchChartAndIndicatorsData short_history_engine
         (constant_network (HttpError 500 (js ''Internal Server Error'') (Inr boom))
            (HttpOk (Inr (js ''ETH: hold.''))) (HttpOk (Inr two_items)))
         eth_selected)))
       = Some (js ''BTC Price (USD)'')
   \<and> aiSummary (fst (fetchChartAndIndicatorsData short_history_engine
         (constant_network (HttpError 500 (js ''Internal Server Error'') (Inr boom))
            (HttpOk (Inr (js ''ETH: hold.''))) (HttpOk (Inr two_items)))
         eth_selected))
       = js ''AI analysis error: Twelve Data OHLCV API Error: 500 - boom''
   \<and> js ''AI analysis error: Twelve Data OHLCV API Error: 500 - boom'' \<noteq> js ''No data to analyze.''"
  by (simp add: cycle_eval)

text \<open>
  C3, amended: when a coin has the selected symbol and the OHLCV fetch throws (the fetch
  rejects, the response is not ok, or its body does not parse), the cycle ends with the
  indicators emptied, the summary \<open>AI analysis error: \<close> followed by the message, the
  chart error and the news error both set to the message, the news list empty and
  nothing loading; a non-empty message is shown in place of the chart; and the OHLCV
  request is the only request issued.
\<close>

theorem ohlcv_failure_commits_error:
  assumes "find (\<lambda>c. symbol c = selected st) (coins st) = Some coin"
    and "fetch_ohlcv (ohlcv_endpoint net (selected st)) = Inl m"
  shows "indicators (fst (fetchChartAndIndicatorsData eng net st)) = None
     \<and> aiSummary (fst (fetchChartAndIndicatorsData eng net st)) = js ''AI analysis error: '' @ m
     \<and> chartError (fst (fetchChartAndIndicatorsData eng net st)) = Some m
     \<and> newsError (fst (fetchChartAndIndicatorsData eng net st)) = Some m
     \<and> news (fst (fetchChartAndIndicatorsData eng net st)) = []
     \<and> chartLoading (fst (fetchChartAndIndicatorsData eng net st)) = False
     \<and> newsLoading (fst (fetchChartAndIndicatorsData eng net st)) = False
     \<and> (m \<noteq> [] \<longrightarrow> chart_region (fst (fetchChartAndIndicatorsData eng net st)) = ChartErrorShown m)
     \<and> snd (fetchChartAndIndicatorsData eng net st) = [OhlcvRequest (selected st)]"
proof -
  have "fetchChartAndIndicatorsData eng net st =
          (finally_block (catch_block m (st\<lparr>chartLoading := True, chartError := None,
              newsLoading := True, newsError := None\<rparr>)), [OhlcvRequest (selected st)])"
    using assms by (simp add: fetchChartAndIndicatorsData_def start_cycle_def on_ohlcv_def Let_def)
  then show ?thesis
    by (simp add: finally_block_def catch_block_def chart_region_def)
qed

theorem ohlcv_failure_commits_error_witness:
  "find (\<lambda>c. symbol c = selected eth_selected) (coins eth_selected)
     = Some (to_CoinData (listing_of ''ETH'' (Some 2)))
   \<and> fetch_ohlcv (ohlcv_endpoint
         (constant_network (HttpError 500 (js ''Internal Server Error'') (Inr boom))
            (HttpOk (Inr (js ''ETH: hold.''))) (HttpOk (Inr two_items))) (selected eth_selected))
       = Inl (js ''Twelve Data OHLCV API Error: 500 - boom'')
   \<and> js ''Twelve Data OHLCV API Error: 500 - boom'' \<noteq> []
   \<and> chart_region (fst (fetchChartAndIndicatorsData short_history_engine
         (constant_network (HttpError 500 (js ''Internal Server Error'') (Inr boom))
            (HttpOk (Inr (js ''ETH: hold.''))) (HttpOk (Inr two_items))) eth_selected))
       = ChartErrorShown (js ''Twelve Data OHLCV API Error: 500 - boom'')
   \<and> indicators (fst (fetchChartAndIndicatorsData short_history_engine
         (constant_network (HttpError 500 (js ''Internal Server Error'') (Inr boom))
            (HttpOk (Inr (js ''ETH: hold.''))) (HttpOk (Inr two_items))) eth_selected)) = None
   \<and> snd (fetchChartAndIndicatorsData short_history_engine
         (constant_network (HttpError 500 (js ''Internal Server Error'') (Inr boom))
            (HttpOk (Inr (js ''ETH: hold.''))) (HttpOk (Inr two_items))) eth_selected)
       = [OhlcvRequest (js ''ETH'')]"
proof -
  let ?net = "constant_network (HttpError 500 (js ''Internal Server Error'') (Inr boom))
            (HttpOk (Inr (js ''ETH: hold.''))) (HttpOk (Inr two_items))"
  let ?m = "js ''Twelve Data OHLCV API Error: 500 - boom''"
  have h: "fetch_ohlcv (ohlcv_endpoint ?net (selected eth_selected)) = Inl ?m"
    by (simp add: constant_network_def fetch_ohlcv_def fetch_json_def boom_def or_else_def
        decimal.simps js_def)
  have n: "?m \<noteq> []" by (simp add: js_def)
  have s: "selected eth_selected = js ''ETH''" by (simp add: eth_selected_def)
  from ohlcv_failure_commits_error[OF eth_selected_coin h, of short_history_engine] n
  have "chart_region (fst (fetchChartAndIndicatorsData short_history_engine ?net eth_selected))
          = ChartErrorShown ?m"
    and "indicators (fst (fetchChartAndIndicatorsData short_history_engine ?net eth_selected)) = None"
    and "snd (fetchChartAndIndicatorsData short_history_engine ?net eth_selected)
          = [OhlcvRequest (js ''ETH'')]"
    by (simp_all only: s simp_thms)
  with eth_selected_coin h n show ?thesis by blast
qed

text \<open>
  C2, as stated, fails: the news request is issued only after the analysis response has
  been stored, and a failed analysis is thrown to the outer \<open>catch\<close>, which empties the
  news list and sets the news error. With the analysis endpoint answering 500 and the
  news endpoint ready to answer with two items, the cycle ends with no news item, the
  news error set, and the news endpoint never asked.
\<close>

theorem analysis_failure_counterexample:
  "fetch_news (news_endpoint
       (constant_network (HttpOk (Inr (Some one_candle)))
          (HttpError 500 (js ''Internal Server Error'') (Inr boom)) (HttpOk (Inr two_items)))
       (js ''BTC'')) = Inr two_items
   \<and> length two_items = 2
   \<and> news (fst (fetchChartAndIndicatorsData short_history_engine
         (constant_network (HttpOk (Inr (Some one_candle)))
            (HttpError 500 (js ''Internal Server Error'') (Inr boom)) (HttpOk (Inr two_items)))
         quotes_page)) = []
   \<and> newsError (fst (fetchChartAndIndicatorsData short_history_engine
         (constant_network (HttpOk (Inr (Some one_candle)))
            (HttpError 500 (js ''Internal Server Error'') (Inr boom)) (HttpOk (Inr two_items)))
         quotes_page)) = Some (js ''AI Analysis API Error: 500 - boom'')
   \<and> aiSummary (fst (fetchChartAndIndicatorsData short_history_engine
         (constant_network (HttpOk (Inr (Some one_candle)))
            (HttpError 500 (js ''Internal Server Error'') (Inr boom)) (HttpOk (Inr two_items)))
         quotes_page)) = js ''AI analysis error: AI Analysis API Error: 500 - boom''
   \<and> length (snd (fetchChartAndIndicatorsData short_history_engine
         (constant_network (HttpOk (Inr (Some one_candle)))
            (HttpError 500 (js ''Internal Server Error'') (Inr boom)) (HttpOk (Inr two_items)))
         quotes_page)) = 2"
  by (simp add: cycle_eval)

text \<open>
  C2, amended: when a coin has the selected symbol, the OHLCV response carries values and
  the analysis fetch throws with message \<open>m\<close>, the cycle ends with the summary
  \<open>AI analysis error: \<close> followed by \<open>m\<close>, the news list empty, the news error and the
  chart error set to \<open>m\<close> and the indicators emptied; the requests issued are the OHLCV
  request and the analysis request, and no news request.
\<close>

theorem analysis_failure_clears_news:
  assumes "find (\<lambda>c. symbol c = selected st) (coins st) = Some coin"
    and "fetch_ohlcv (ohlcv_endpoint net (selected st)) = Inr (Some (v # vs))"
    and "\<And>body. fetch_analysis (analyze_endpoint net body) = Inl m"
  shows "aiSummary (fst (fetchChartAndIndicatorsData eng net st)) = js ''AI analysis error: '' @ m
     \<and> news (fst (fetchChartAndIndicatorsData eng net st)) = []
     \<and> newsError (fst (fetchChartAndIndicatorsData eng net st)) = Some m
     \<and> chartError (fst (fetchChartAndIndicatorsData eng net st)) = Some m
     \<and> indicators (fst (fetchChartAndIndicatorsData eng net st)) = None
     \<and> (\<exists>body. snd (fetchChartAndIndicatorsData eng net st)
                  = [OhlcvRequest (selected st), AnalyzeRequest body])"
  using assms
  by (simp add: fetchChartAndIndicatorsData_def start_cycle_def on_ohlcv_def on_analysis_def
      Let_def finally_block_def catch_block_def)

theorem analysis_failure_clears_news_witness:
  "find (\<lambda>c. symbol c = selected quotes_page) (coins quotes_page)
     = Some (to_CoinData (listing_of ''BTC'' (Some 1)))
   \<and> fetch_ohlcv (ohlcv_endpoint
         (constant_network (HttpOk (Inr (Some one_candle)))
            (HttpError 500 (js ''Internal Server Error'') (Inr boom)) (HttpOk (Inr two_items)))
         (selected quotes_page)) = Inr (Some one_candle)
   \<and> fetch_analysis (HttpError 500 (js ''Internal Server Error'') (Inr boom))
       = Inl (js ''AI Analysis API Error: 500 - boom'')
   \<and> news (fst (fetchChartAndIndicatorsData short_history_engine
         (constant_network (HttpOk (Inr (Some one_candle)))
            (HttpError 500 (js ''Internal Server Error'') (Inr boom)) (HttpOk (Inr two_items)))
         quotes_page)) = []
   \<and> newsError (fst (fetchChartAndIndicatorsData short_history_engine
         (constant_network (HttpOk (Inr (Some one_candle)))
            (HttpError 500 (js ''Internal Server Error'') (Inr boom)) (HttpOk (Inr two_items)))
         quotes_page)) = Some (js ''AI Analysis API Error: 500 - boom'')"
proof -
  let ?net = "constant_network (HttpOk (Inr (Some one_candle)))
            (HttpError 500 (js ''Internal Server Error'') (Inr boom)) (HttpOk (Inr two_items))"
  let ?m = "js ''AI Analysis API Error: 500 - boom''"
  have h1: "fetch_ohlcv (ohlcv_endpoint ?net (selected quotes_page))
              = Inr (Some (hd one_candle # tl one_candle))"
    by (simp add: constant_network_def fetch_ohlcv_def fetch_json_def one_candle_def)
  have a: "fetch_analysis (HttpError 500 (js ''Internal Server Error'') (Inr boom)) = Inl ?m"
    by (simp add: fetch_analysis_def fetch_json_def boom_def or_else_def decimal.simps js_def)
  then have h2: "\<And>body. fetch_analysis (analyze_endpoint ?net body) = Inl ?m"
    by (simp add: constant_network_def)
  have c: "hd one_candle # tl one_candle = one_candle" by (simp add: one_candle_def)
  from analysis_failure_clears_news[OF quotes_page_coin h1 h2, of short_history_engine]
  have "news (fst (fetchChartAndIndicatorsData short_history_engine ?net quotes_page)) = []"
    and "newsError (fst (fetchChartAndIndicatorsData short_history_engine ?net quotes_page))
          = Some ?m"
    by simp_all
  with quotes_page_coin h1 a c show ?thesis by simp
qed

lemma floor_45683: "\<lfloor>45683 / 10 :: rat\<rfloor> = 4568"
  by (rule floor_unique) simp_all

lemma toFixed_45678: "decimal_toFixed (Num (45678 / 1000)) 2 = js ''45.68''"
  by (simp add: decimal_toFixed_def Let_def pad_zeros_def decimal.simps js_def floor_45683)

lemma parseFloat_4568: "decimal_parseFloat (js ''45.68'') = Num (4568 / 100)"
  by (simp add: decimal_parseFloat_def Let_def digit_value_def digits_value_def js_def)

lemma rsi_engine_rounded:
  "rounded rsi_engine 2 (Some (Num (45678 / 1000))) = Some (Num (4568 / 100))"
  using toFixed_45678 parseFloat_4568
  by (simp add: rounded_def rsi_engine_def series_engine_def)

lemma rsi_engine_current: "currentRsi rsi_engine prices = Some (Num (45678 / 1000))"
  by (simp add: currentRsi_def rsi_engine_def series_engine_def last_or_na_def)

text \<open>
  C4, as stated, fails: the snapshot the orchestrator keeps holds the rounded values, and
  the body of the analysis request is built from that snapshot. With an RSI series that
  ends with 45.678, the stored RSI and the RSI of the request body are both 45.68.
\<close>

theorem rounded_indicators_counterexample:
  "currentRsi rsi_engine (closePrices_of rsi_engine one_candle) = Some (Num (45678 / 1000))
   \<and> map_option body_rsi
        (snd (on_ohlcv rsi_engine btc_closure (HttpOk (Inr (Some one_candle))) quotes_page))
       = Some (Some (Num (4568 / 100)))
   \<and> map_option rsi
        (indicators (fst (on_ohlcv rsi_engine btc_closure (HttpOk (Inr (Some one_candle)))
           quotes_page)))
       = Some (Some (Num (4568 / 100)))
   \<and> Num (4568 / 100) \<noteq> Num (45678 / 1000)"
  using rsi_engine_rounded rsi_engine_current
  by (simp add: on_ohlcv_def fetch_ohlcv_def fetch_json_def one_candle_def Let_def
      currentIndicators_def analysis_request_def)

text \<open>
  C4, amended: for every engine, when the OHLCV response carries values the snapshot
  stored in \<open>indicators\<close> holds each last indicator value already rounded (RSI through
  \<open>toFixed(2)\<close>, the others through \<open>toFixed(4)\<close>, and back through \<open>parseFloat\<close>); the
  RSI, MACD and the two SMAs of the analysis request body are those rounded values; and
  the table applies \<open>toFixed\<close> once more to the stored value.
\<close>

theorem indicators_rounded_before_use:
  assumes "fetch_ohlcv outcome = Inr (Some (v # vs))"
  shows "indicators (fst (on_ohlcv eng cl outcome st))
           = Some (currentIndicators eng (closePrices_of eng (v # vs)))
     \<and> rsi (currentIndicators eng (closePrices_of eng (v # vs)))
           = rounded eng 2 (currentRsi eng (closePrices_of eng (v # vs)))
     \<and> map_option body_rsi (snd (on_ohlcv eng cl outcome st))
           = Some (rounded eng 2 (currentRsi eng (closePrices_of eng (v # vs))))
     \<and> map_option body_macd (snd (on_ohlcv eng cl outcome st))
           = Some (rounded eng 4 (MACD (currentMacd eng (closePrices_of eng (v # vs)))))
     \<and> map_option body_sma50 (snd (on_ohlcv eng cl outcome st))
           = Some (rounded eng 4 (currentSma eng 50 (closePrices_of eng (v # vs))))
     \<and> map_option body_sma200 (snd (on_ohlcv eng cl outcome st))
           = Some (rounded eng 4 (currentSma eng 200 (closePrices_of eng (v # vs))))
     \<and> indicator_table eng (indicators (fst (on_ohlcv eng cl outcome st)))
           = [indicator_cell eng 2 (rounded eng 2 (currentRsi eng (closePrices_of eng (v # vs)))),
              indicator_cell eng 4
                (rounded eng 4 (MACD (currentMacd eng (closePrices_of eng (v # vs))))),
              indicator_cell eng 4
                (rounded eng 4 (signal (currentMacd eng (closePrices_of eng (v # vs))))),
              indicator_cell eng 4
                (rounded eng 4 (histogram (currentMacd eng (closePrices_of eng (v # vs))))),
              indicator_cell eng 4 (rounded eng 4 (currentSma eng 50 (closePrices_of eng (v # vs)))),
              indicator_cell eng 4 (rounded eng 4 (currentSma eng 200 (closePrices_of eng (v # vs))))]
     \<and> indicator_cell eng 2 (rounded eng 2 (currentRsi eng (closePrices_of eng (v # vs))))
           = (case currentRsi eng (closePrices_of eng (v # vs)) of
                None \<Rightarrow> js ''N/A''
              | Some x \<Rightarrow> toFixed eng (parseFloat eng (toFixed eng x 2)) 2)"
  using assms
  by (simp add: on_ohlcv_def Let_def closePrices_of_def currentIndicators_def analysis_request_def
      indicator_table_def indicator_cell_def rounded_def split: option.splits)

theorem indicators_rounded_before_use_witness:
  "fetch_ohlcv (HttpOk (Inr (Some one_candle))) = Inr (Some (hd one_candle # tl one_candle))
   \<and> hd one_candle # tl one_candle = one_candle
   \<and> map_option body_rsi
        (snd (on_ohlcv rsi_engine btc_closure (HttpOk (Inr (Some one_candle))) quotes_page))
       = Some (Some (Num (4568 / 100)))"
proof -
  have h: "fetch_ohlcv (HttpOk (Inr (Some one_candle)))
             = Inr (Some (hd one_candle # tl one_candle))"
    by (simp add: fetch_ohlcv_def fetch_json_def one_candle_def)
  have c: "hd one_candle # tl one_candle = one_candle" by (simp add: one_candle_def)
  from indicators_rounded_before_use[OF h, of rsi_engine btc_closure quotes_page]
  have "map_option body_rsi
          (snd (on_ohlcv rsi_engine btc_closure (HttpOk (Inr (Some one_candle))) quotes_page))
        = Some (rounded rsi_engine 2 (currentRsi rsi_engine (closePrices_of rsi_engine one_candle)))"
    by (simp only: c)
  then have "map_option body_rsi
          (snd (on_ohlcv rsi_engine btc_closure (HttpOk (Inr (Some one_candle))) quotes_page))
        = Some (Some (Num (4568 / 100)))"
    by (simp only: rsi_engine_current rsi_engine_rounded)
  with h c show ?thesis by blast
qed

lemmas world_eval =
  btc_resolves_last_def btc_resolves_first_def both_started_def responses_def mounted_def
  step_def detail_effect_def waiting_def eth_item_def stores_coins_def

text \<open>
  A resumed cycle reads the selection nowhere: whatever is selected when a response
  arrives, the same values are written and the same request is issued next.
\<close>

lemma resumed_cycle_ignores_selection:
  "on_ohlcv eng cl o1 (st\<lparr>selected := s\<rparr>)
     = ((fst (on_ohlcv eng cl o1 st))\<lparr>selected := s\<rparr>, snd (on_ohlcv eng cl o1 st))"
  "on_analysis cl o2 (st\<lparr>selected := s\<rparr>)
     = ((fst (on_analysis cl o2 st))\<lparr>selected := s\<rparr>, snd (on_analysis cl o2 st))"
  "on_news o3 (st\<lparr>selected := s\<rparr>) = (on_news o3 st)\<lparr>selected := s\<rparr>"
  by (simp_all add: on_ohlcv_def on_analysis_def on_news_def Let_def catch_block_def
      finally_block_def no_data_def news_failed_def split: sum.splits option.splits list.splits)

text \<open>
  C1 does not hold of the code: a cycle checks nothing when it resumes. With the cycle for
  BTC in flight the user selects ETH. When the responses for BTC arrive after those for
  ETH, the page ends with ETH selected and the chart, summary and news of BTC; when they
  arrive first, they are stored on arrival all the same.
\<close>

theorem stale_cycle_commits:
  "selected (page btc_resolves_last) = js ''ETH''
   \<and> map_option dataset_label (chartData (page btc_resolves_last)) = Some (js ''BTC Price (USD)'')
   \<and> aiSummary (page btc_resolves_last) = js ''BTC: buy.''
   \<and> news (page btc_resolves_last) = two_items
   \<and> selected (page btc_resolves_first) = js ''ETH''
   \<and> map_option dataset_label (chartData (page btc_resolves_first)) = Some (js ''BTC Price (USD)'')
   \<and> aiSummary (page btc_resolves_first) = js ''BTC: buy.''
   \<and> news (page btc_resolves_first) = two_items"
  by (simp add: world_eval cycle_eval)

text \<open>The sibling effect commits nothing once its cleanup has run.\<close>

lemma stale_translation_discarded: "translation_resolves False language translated st = st"
  by (simp add: translation_resolves_def)


end
